theory Spec2Isabelle
  imports Main "HOL-Library.AList" "HOL-Library.Sublist"
begin

section \<open>Python values, exceptions and the outside world\<close>

text \<open>
  The server works on two kinds of data: objects of the PyGithub client (attribute
  access, never a missing attribute) and raw JSON decoded by \<open>response.json()\<close> or
  \<open>json.loads\<close> (dictionaries and lists, where a missing key or a value of the wrong
  shape raises). JSON numbers are restricted to integers. A Python \<open>str\<close> is a list of
  characters, one element per code point. A dictionary is an association list in
  insertion order; the first binding of a key is the dictionary's.
\<close>

datatype json =
    JNull
  | JBool bool
  | JInt int
  | JStr string
  | JArr "json list"
  | JObj "(string \<times> json) list"

text \<open>
  The exceptions the code can meet. \<open>GithubException\<close> is the PyGithub class the
  authenticated scan catches; \<open>HTTPError\<close> is what \<open>raise_for_status\<close> raises;
  \<open>RequestException\<close> stands for a transport fault of \<open>requests.get\<close>.
\<close>

datatype exn =
    GithubException int
  | HTTPError int
  | RequestException
  | KeyError string
  | TypeError
  | AttributeError
  | ValueError string
  | UnicodeDecodeError
  | JSONDecodeError
  | Base64Error

text \<open>\<open>v[k]\<close> with a string key: only a dictionary can be subscripted by a string.\<close>

definition py_getitem :: "json \<Rightarrow> string \<Rightarrow> exn + json" where
  "py_getitem v k =
     (case v of
        JObj kvs \<Rightarrow> (case map_of kvs k of None \<Rightarrow> Inl (KeyError k) | Some x \<Rightarrow> Inr x)
      | _ \<Rightarrow> Inl TypeError)"

text \<open>\<open>v.get(k, d)\<close>: only a dictionary has the method.\<close>

definition py_get :: "json \<Rightarrow> string \<Rightarrow> json \<Rightarrow> exn + json" where
  "py_get v k d =
     (case v of
        JObj kvs \<Rightarrow> (case map_of kvs k of None \<Rightarrow> Inr d | Some x \<Rightarrow> Inr x)
      | _ \<Rightarrow> Inl AttributeError)"

text \<open>
  \<open>for x in v\<close>: a list yields its elements, a dictionary its keys, a string its
  characters; anything else is not iterable.
\<close>

definition py_iter :: "json \<Rightarrow> exn + json list" where
  "py_iter v =
     (case v of
        JArr xs \<Rightarrow> Inr xs
      | JObj kvs \<Rightarrow> Inr (map JStr (remdups (map fst kvs)))
      | JStr s \<Rightarrow> Inr (map (\<lambda>c. JStr [c]) s)
      | _ \<Rightarrow> Inl TypeError)"

text \<open>Truth value of a JSON value in a condition.\<close>

definition py_truthy :: "json \<Rightarrow> bool" where
  "py_truthy v =
     (case v of
        JNull \<Rightarrow> False
      | JBool b \<Rightarrow> b
      | JInt i \<Rightarrow> i \<noteq> 0
      | JStr s \<Rightarrow> s \<noteq> []
      | JArr xs \<Rightarrow> xs \<noteq> []
      | JObj kvs \<Rightarrow> kvs \<noteq> [])"

text \<open>
  \<open>f"{v}"\<close>: a string is inserted as it is. The text Python gives any other value
  (\<open>repr\<close>) belongs to the interpreter and is taken as the parameter \<open>repr\<close>.
\<close>

definition format_value :: "(json \<Rightarrow> string) \<Rightarrow> json \<Rightarrow> string" where
  "format_value repr v = (case v of JStr s \<Rightarrow> s | _ \<Rightarrow> repr v)"

text \<open>
  A PyGithub \<open>ContentFile\<close>. \<open>cf_text\<close> is the outcome of
  \<open>decoded_content.decode('utf-8')\<close>, which raises on bytes that are not UTF-8.
\<close>

record content_file =
  cf_name :: string
  cf_type :: string
  cf_path :: string
  cf_size :: int
  cf_text :: "exn + string"

text \<open>
  \<open>Repository.get_contents\<close> returns a list for a directory and one \<open>ContentFile\<close>
  for a file.
\<close>

datatype contents = Listing "content_file list" | Single content_file

text \<open>An HTTP response: its status and the outcome of \<open>response.json()\<close>.\<close>

record response =
  status_code :: int
  json_body :: "exn + json"

section \<open>Structure Tree Builder\<close>

text \<open>
  One entry of the result: the dictionary \<open>item\<close>. The keys \<open>name\<close>, \<open>type\<close>,
  \<open>path\<close> and \<open>size\<close> are always set (\<open>size\<close> to \<open>None\<close>, here \<open>JNull\<close>, unless the
  entry is a file); the key \<open>children\<close> is set only inside the branch that expands a
  directory, so \<open>nd_children = None\<close> is a dictionary without that key.
\<close>

datatype node =
  Node (nd_name: json) (nd_type: json) (nd_path: json) (nd_size: json)
       (nd_children: "node list option")

text \<open>
  \<open>_build_structure_tree\<close>: the authenticated variant. \<open>get_contents\<close> is
  \<open>repo_obj.get_contents\<close>. \<open>structure_item\<close> is the body of the \<open>for\<close> loop for
  one entry; its \<open>try\<close> encloses the listing and the recursive call, and its handler
  catches every exception. Iterating over a single \<open>ContentFile\<close> is a \<open>TypeError\<close>.
\<close>

function build_structure_tree ::
  "(string \<Rightarrow> exn + contents) \<Rightarrow> contents \<Rightarrow> int \<Rightarrow> int \<Rightarrow> exn + node list"
and structure_item ::
  "(string \<Rightarrow> exn + contents) \<Rightarrow> int \<Rightarrow> int \<Rightarrow> content_file \<Rightarrow> node"
where
  "build_structure_tree get_contents conts max_depth current_depth =
     (if current_depth \<ge> max_depth then Inr []
      else
        (case conts of
           Single c \<Rightarrow> Inl TypeError
         | Listing cs \<Rightarrow> Inr (map (structure_item get_contents max_depth current_depth) cs)))"
| "structure_item get_contents max_depth current_depth content =
     Node (JStr (cf_name content)) (JStr (cf_type content)) (JStr (cf_path content))
          (if cf_type content = ''file'' then JInt (cf_size content) else JNull)
          (if cf_type content = ''dir'' \<and> current_depth < max_depth - 1
           then
             (case get_contents (cf_path content) of
                Inl e \<Rightarrow> Some []
              | Inr sub_contents \<Rightarrow>
                  (case build_structure_tree get_contents sub_contents max_depth
                          (current_depth + 1) of
                     Inl e \<Rightarrow> Some []
                   | Inr children \<Rightarrow> Some children))
           else None)"
  by pat_completeness auto
termination
  by (relation "measure (\<lambda>x. case x of
          Inl (g, c, m, d) \<Rightarrow> 2 * nat (m - d) + 1
        | Inr (g, m, d, c) \<Rightarrow> 2 * nat (m - d))") auto

text \<open>
  \<open>_build_structure_tree_api\<close>: the fallback variant on raw JSON. \<open>requests_get\<close> is
  \<open>requests.get\<close>. \<open>structure_item_api\<close> is the body of the loop: reading \<open>name\<close>,
  \<open>type\<close> or \<open>path\<close> of an entry is outside the \<open>try\<close> and can raise, and the loop
  then stops with that exception (\<open>sequence_exn\<close> keeps the first one).
\<close>

fun sequence_exn :: "(exn + 'a) list \<Rightarrow> exn + 'a list" where
  "sequence_exn [] = Inr []"
| "sequence_exn (r # rs) =
     (case r of
        Inl e \<Rightarrow> Inl e
      | Inr x \<Rightarrow> (case sequence_exn rs of Inl e \<Rightarrow> Inl e | Inr xs \<Rightarrow> Inr (x # xs)))"

definition contents_url :: "(json \<Rightarrow> string) \<Rightarrow> string \<Rightarrow> string \<Rightarrow> json \<Rightarrow> string" where
  "contents_url repr owner repo p =
     ''https://api.github.com/repos/'' @ owner @ ''/'' @ repo @ ''/contents/'' @ format_value repr p"

function build_structure_tree_api ::
  "(string \<Rightarrow> exn + response) \<Rightarrow> (json \<Rightarrow> string) \<Rightarrow> string \<Rightarrow> string \<Rightarrow> json \<Rightarrow> int \<Rightarrow> int
    \<Rightarrow> exn + node list"
and structure_item_api ::
  "(string \<Rightarrow> exn + response) \<Rightarrow> (json \<Rightarrow> string) \<Rightarrow> string \<Rightarrow> string \<Rightarrow> int \<Rightarrow> int \<Rightarrow> json
    \<Rightarrow> exn + node"
where
  "build_structure_tree_api requests_get repr owner repo conts max_depth current_depth =
     (if current_depth \<ge> max_depth then Inr []
      else
        (case py_iter conts of
           Inl e \<Rightarrow> Inl e
         | Inr cs \<Rightarrow>
             sequence_exn
               (map (structure_item_api requests_get repr owner repo max_depth current_depth) cs)))"
| "structure_item_api requests_get repr owner repo max_depth current_depth content =
     (case py_getitem content ''name'' of Inl e \<Rightarrow> Inl e | Inr nm \<Rightarrow>
     (case py_getitem content ''type'' of Inl e \<Rightarrow> Inl e | Inr ty \<Rightarrow>
     (case py_getitem content ''path'' of Inl e \<Rightarrow> Inl e | Inr pa \<Rightarrow>
     (case (if ty = JStr ''file'' then py_get content ''size'' JNull else Inr JNull) of
        Inl e \<Rightarrow> Inl e
      | Inr sz \<Rightarrow>
          Inr (Node nm ty pa sz
            (if ty = JStr ''dir'' \<and> current_depth < max_depth - 1
             then
               (case requests_get (contents_url repr owner repo pa) of
                  Inl e \<Rightarrow> Some []
                | Inr resp \<Rightarrow>
                    if status_code resp = 200
                    then
                      (case json_body resp of
                         Inl e \<Rightarrow> Some []
                       | Inr sub_contents \<Rightarrow>
                           (case build_structure_tree_api requests_get repr owner repo
                                   sub_contents max_depth (current_depth + 1) of
                              Inl e \<Rightarrow> Some []
                            | Inr children \<Rightarrow> Some children))
                    else Some [])
             else None))))))"
  by pat_completeness auto
termination
  by (relation "measure (\<lambda>x. case x of
          Inl (g, r, ow, re, c, m, d) \<Rightarrow> 2 * nat (m - d) + 1
        | Inr (g, r, ow, re, m, d, c) \<Rightarrow> 2 * nat (m - d))") auto

text \<open>Every node of a result, at any level.\<close>

fun all_nodes :: "node \<Rightarrow> node list" where
  "all_nodes (Node nm ty pa sz ch) =
     Node nm ty pa sz ch #
       (case ch of None \<Rightarrow> [] | Some cs \<Rightarrow> concat (map all_nodes cs))"

section \<open>Strings\<close>

text \<open>
  \<open>str.isspace\<close> on the code points below 256: the ASCII white space, the four
  separators \<open>0x1c\<close> to \<open>0x1f\<close>, \<open>0x85\<close> and \<open>0xa0\<close>.
\<close>

definition py_isspace :: "char \<Rightarrow> bool" where
  "py_isspace c =
     (let n = of_char c :: nat
      in (9 \<le> n \<and> n \<le> 13) \<or> (28 \<le> n \<and> n \<le> 32) \<or> n = 133 \<or> n = 160)"

text \<open>\<open>s.strip()\<close> and \<open>s.strip("/")\<close>: drop the matching characters at both ends.\<close>

definition strip_where :: "(char \<Rightarrow> bool) \<Rightarrow> string \<Rightarrow> string" where
  "strip_where P s = rev (dropWhile P (rev (dropWhile P s)))"

definition strip :: "string \<Rightarrow> string" where
  "strip s = strip_where py_isspace s"

text \<open>\<open>s.split(sep)\<close> with a one-character separator: never an empty list.\<close>

fun split :: "char \<Rightarrow> string \<Rightarrow> string list" where
  "split sep [] = [[]]"
| "split sep (c # cs) =
     (if c = sep then [] # split sep cs
      else (case split sep cs of
              [] \<Rightarrow> [[c]]
            | w # ws \<Rightarrow> (c # w) # ws))"

text \<open>\<open>s.startswith(c)\<close> for one character.\<close>

definition startswith :: "string \<Rightarrow> char \<Rightarrow> bool" where
  "startswith s c = (case s of [] \<Rightarrow> False | x # _ \<Rightarrow> x = c)"

section \<open>Locator Parser\<close>

text \<open>
  The two fields of \<open>urllib.parse.urlparse\<close>'s result that the parser reads.
\<close>

record parse_result =
  netloc :: string
  path :: string

text \<open>
  \<open>parse_github_url\<close>. \<open>urlparse\<close> belongs to the standard library and is a
  parameter; it can raise \<open>ValueError\<close> itself.
\<close>

definition parse_github_url ::
  "(string \<Rightarrow> exn + parse_result) \<Rightarrow> string \<Rightarrow> exn + (string \<times> string)"
where
  "parse_github_url url_parse repo_url =
     (case url_parse repo_url of
        Inl e \<Rightarrow> Inl e
      | Inr parsed \<Rightarrow>
          if netloc parsed \<noteq> ''github.com'' then Inl (ValueError ''Invalid GitHub URL'')
          else
            (let path_parts = split CHR ''/'' (strip_where (\<lambda>c. c = CHR ''/'') (path parsed))
             in if length path_parts < 2
                then Inl (ValueError ''Invalid GitHub repository URL format'')
                else Inr (path_parts ! 0, path_parts ! 1)))"

text \<open>
  A model of \<open>urlparse\<close> for the examples, after CPython's \<open>urlsplit\<close> and
  \<open>urlparse\<close>: leading control characters and spaces are dropped, tabs and line
  breaks removed, a scheme is split off, \<open>//\<close> starts the network location, which
  ends at the first \<open>/\<close>, \<open>?\<close> or \<open>#\<close>; the path ends at \<open>#\<close>, at \<open>?\<close> and, for the
  schemes with parameters, at a \<open>;\<close> of its last segment. The validation of the text
  between brackets and of non-ASCII hosts is left out.
\<close>

definition is_ascii_alpha :: "char \<Rightarrow> bool" where
  "is_ascii_alpha c =
     (let n = of_char c :: nat in (65 \<le> n \<and> n \<le> 90) \<or> (97 \<le> n \<and> n \<le> 122))"

definition is_scheme_char :: "char \<Rightarrow> bool" where
  "is_scheme_char c =
     (let n = of_char c :: nat
      in is_ascii_alpha c \<or> (48 \<le> n \<and> n \<le> 57) \<or> c = CHR ''+'' \<or> c = CHR ''-'' \<or> c = CHR ''.'')"

definition ascii_lower :: "char \<Rightarrow> char" where
  "ascii_lower c =
     (let n = of_char c :: nat in if 65 \<le> n \<and> n \<le> 90 then char_of (n + 32) else c)"

definition uses_params :: "string list" where
  "uses_params =
     ['''', ''ftp'', ''hdl'', ''prospero'', ''http'', ''imap'', ''https'', ''shttp'', ''rtsp'',
      ''rtspu'', ''sip'', ''sips'', ''mms'', ''sftp'', ''tel'']"

definition split_scheme :: "string \<Rightarrow> string \<times> string" where
  "split_scheme url =
     (let pre = takeWhile (\<lambda>c. c \<noteq> CHR '':'') url
      in if CHR '':'' \<in> set url \<and> pre \<noteq> [] \<and> is_ascii_alpha (hd pre) \<and> list_all is_scheme_char pre
         then (map ascii_lower pre, drop (length pre + 1) url)
         else ('''', url))"

definition split_params :: "string \<Rightarrow> string" where
  "split_params p =
     (if CHR ''/'' \<in> set p
      then (let last_seg = rev (takeWhile (\<lambda>c. c \<noteq> CHR ''/'') (rev p));
                front = take (length p - length last_seg) p
            in front @ takeWhile (\<lambda>c. c \<noteq> CHR '';'') last_seg)
      else takeWhile (\<lambda>c. c \<noteq> CHR '';'') p)"

definition urlparse :: "string \<Rightarrow> exn + parse_result" where
  "urlparse url0 =
     (let url1 = dropWhile (\<lambda>c. (of_char c :: nat) \<le> 32) url0;
          url2 = filter (\<lambda>c. c \<noteq> CHR 0x09 \<and> c \<noteq> CHR 0x0A \<and> c \<noteq> CHR 0x0D) url1;
          (scheme, url3) = split_scheme url2;
          is_delim = (\<lambda>c. c = CHR ''/'' \<or> c = CHR ''?'' \<or> c = CHR ''#'');
          (loc, url4) =
            (if take 2 url3 = ''//''
             then (takeWhile (\<lambda>c. \<not> is_delim c) (drop 2 url3),
                   dropWhile (\<lambda>c. \<not> is_delim c) (drop 2 url3))
             else ('''', url3))
      in if (CHR ''['' \<in> set loc) \<noteq> (CHR '']'' \<in> set loc)
         then Inl (ValueError ''Invalid IPv6 URL'')
         else
           (let url5 = takeWhile (\<lambda>c. c \<noteq> CHR ''#'') url4;
                url6 = takeWhile (\<lambda>c. c \<noteq> CHR ''?'') url5;
                url7 = (if scheme \<in> set uses_params \<and> CHR '';'' \<in> set url6
                        then split_params url6 else url6)
            in Inr \<lparr>netloc = loc, path = url7\<rparr>))"

section \<open>The PyGithub repository object and the environment\<close>

text \<open>
  \<open>datetime\<close> as PyGithub hands it over: the calendar fields and the offset from UTC
  in minutes (\<open>None\<close> for a naive value).
\<close>

record datetime =
  dt_year :: nat
  dt_month :: nat
  dt_day :: nat
  dt_hour :: nat
  dt_minute :: nat
  dt_second :: nat
  dt_microsecond :: nat
  dt_utcoffset :: "int option"

definition digit :: "nat \<Rightarrow> char" where
  "digit k = ''0123456789'' ! k"

function decimal :: "nat \<Rightarrow> string" where
  "decimal n =
     (if n < 10 then [digit n]
      else decimal (n div 10) @ [digit (n mod 10)])"
  by pat_completeness auto
termination
  by (relation "measure (\<lambda>n. n)") auto

declare decimal.simps [simp del]

definition zero_pad :: "nat \<Rightarrow> nat \<Rightarrow> string" where
  "zero_pad w n = replicate (w - length (decimal n)) CHR ''0'' @ decimal n"

text \<open>
  \<open>datetime.isoformat()\<close>: \<open>YYYY-MM-DDTHH:MM:SS\<close>, then the microseconds when they are
  not zero, then the offset as \<open>+HH:MM\<close> or \<open>-HH:MM\<close> when the value has one.
\<close>

definition isoformat :: "datetime \<Rightarrow> string" where
  "isoformat d =
     zero_pad 4 (dt_year d) @ ''-'' @ zero_pad 2 (dt_month d) @ ''-'' @ zero_pad 2 (dt_day d) @
     ''T'' @ zero_pad 2 (dt_hour d) @ '':'' @ zero_pad 2 (dt_minute d) @ '':'' @
     zero_pad 2 (dt_second d) @
     (if dt_microsecond d \<noteq> 0 then ''.'' @ zero_pad 6 (dt_microsecond d) else '''') @
     (case dt_utcoffset d of
        None \<Rightarrow> ''''
      | Some off \<Rightarrow>
          (if off < 0 then ''-'' else ''+'') @
          zero_pad 2 (nat \<bar>off\<bar> div 60) @ '':'' @ zero_pad 2 (nat \<bar>off\<bar> mod 60))"

text \<open>
  The attributes and methods of a PyGithub \<open>Repository\<close> that the server uses.
  \<open>r_license\<close> is the name of the licence object when there is one.
\<close>

record repository =
  r_name :: string
  r_full_name :: string
  r_description :: "string option"
  r_language :: "string option"
  r_stargazers_count :: int
  r_forks_count :: int
  r_open_issues_count :: int
  r_created_at :: datetime
  r_updated_at :: datetime
  r_size :: int
  r_default_branch :: string
  r_get_topics :: "exn + string list"
  r_license :: "string option"
  r_homepage :: "string option"
  r_clone_url :: string
  r_ssh_url :: string
  r_get_contents :: "string \<Rightarrow> exn + contents"
  r_get_readme :: "exn + content_file"

text \<open>
  What a server instance can reach: the authenticated client when a token is
  configured (\<open>Github.get_repo\<close>), plain HTTP (\<open>requests.get\<close>), and the library
  functions that are not part of the repository.
\<close>

record env =
  github_client :: "(string \<Rightarrow> exn + repository) option"
  http_get :: "string \<Rightarrow> exn + response"
  url_parser :: "string \<Rightarrow> exn + parse_result"
  json_loads :: "string \<Rightarrow> exn + json"
  b64decode_utf8 :: "string \<Rightarrow> exn + string"
  py_repr :: "json \<Rightarrow> string"

definition bind_exn :: "exn + 'a \<Rightarrow> ('a \<Rightarrow> exn + 'b) \<Rightarrow> exn + 'b" where
  "bind_exn m f = (case m of Inl e \<Rightarrow> Inl e | Inr x \<Rightarrow> f x)"

text \<open>\<open>response.raise_for_status()\<close>: a status from 400 to 599 raises.\<close>

definition raise_for_status :: "response \<Rightarrow> exn + unit" where
  "raise_for_status resp =
     (if 400 \<le> status_code resp \<and> status_code resp < 600
      then Inl (HTTPError (status_code resp)) else Inr ())"

text \<open>\<open>base64.b64decode(v).decode('utf-8')\<close> on a JSON value.\<close>

definition b64_text :: "env \<Rightarrow> json \<Rightarrow> exn + string" where
  "b64_text E v = (case v of JStr s \<Rightarrow> b64decode_utf8 E s | _ \<Rightarrow> Inl TypeError)"

definition opt_str :: "string option \<Rightarrow> json" where
  "opt_str x = (case x of None \<Rightarrow> JNull | Some s \<Rightarrow> JStr s)"

section \<open>Metadata Fetcher\<close>

text \<open>
  \<open>get_repository_metadata\<close>. The result is the dictionary \<open>metadata\<close>; the final
  \<open>json.dumps\<close> is not modelled, and where a caller applies \<open>json.loads\<close> to that
  text it gets the dictionary back. The handler logs and raises again.
\<close>

definition metadata_authenticated :: "repository \<Rightarrow> exn + json" where
  "metadata_authenticated repo_obj =
     bind_exn (r_get_topics repo_obj) (\<lambda>topics.
       Inr (JObj
         [(''name'', JStr (r_name repo_obj)),
          (''full_name'', JStr (r_full_name repo_obj)),
          (''description'', opt_str (r_description repo_obj)),
          (''language'', opt_str (r_language repo_obj)),
          (''stars'', JInt (r_stargazers_count repo_obj)),
          (''forks'', JInt (r_forks_count repo_obj)),
          (''open_issues'', JInt (r_open_issues_count repo_obj)),
          (''created_at'', JStr (isoformat (r_created_at repo_obj))),
          (''updated_at'', JStr (isoformat (r_updated_at repo_obj))),
          (''size'', JInt (r_size repo_obj)),
          (''default_branch'', JStr (r_default_branch repo_obj)),
          (''topics'', JArr (map JStr topics)),
          (''license'', (case r_license repo_obj of None \<Rightarrow> JNull | Some n \<Rightarrow> JStr n)),
          (''homepage'', opt_str (r_homepage repo_obj)),
          (''clone_url'', JStr (r_clone_url repo_obj)),
          (''ssh_url'', JStr (r_ssh_url repo_obj))]))"

definition metadata_fallback :: "json \<Rightarrow> exn + json" where
  "metadata_fallback data =
     bind_exn (py_getitem data ''name'') (\<lambda>name.
     bind_exn (py_getitem data ''full_name'') (\<lambda>full_name.
     bind_exn (py_getitem data ''description'') (\<lambda>description.
     bind_exn (py_getitem data ''language'') (\<lambda>language.
     bind_exn (py_getitem data ''stargazers_count'') (\<lambda>stars.
     bind_exn (py_getitem data ''forks_count'') (\<lambda>forks.
     bind_exn (py_getitem data ''open_issues_count'') (\<lambda>open_issues.
     bind_exn (py_getitem data ''created_at'') (\<lambda>created_at.
     bind_exn (py_getitem data ''updated_at'') (\<lambda>updated_at.
     bind_exn (py_getitem data ''size'') (\<lambda>size.
     bind_exn (py_getitem data ''default_branch'') (\<lambda>default_branch.
     bind_exn (py_get data ''topics'' (JArr [])) (\<lambda>topics.
     bind_exn (bind_exn (py_get data ''license'' JNull) (\<lambda>lic.
                 if py_truthy lic
                 then bind_exn (py_getitem data ''license'') (\<lambda>l. py_getitem l ''name'')
                 else Inr JNull)) (\<lambda>license.
     bind_exn (py_getitem data ''homepage'') (\<lambda>homepage.
     bind_exn (py_getitem data ''clone_url'') (\<lambda>clone_url.
     bind_exn (py_getitem data ''ssh_url'') (\<lambda>ssh_url.
       Inr (JObj
         [(''name'', name),
          (''full_name'', full_name),
          (''description'', description),
          (''language'', language),
          (''stars'', stars),
          (''forks'', forks),
          (''open_issues'', open_issues),
          (''created_at'', created_at),
          (''updated_at'', updated_at),
          (''size'', size),
          (''default_branch'', default_branch),
          (''topics'', topics),
          (''license'', license),
          (''homepage'', homepage),
          (''clone_url'', clone_url),
          (''ssh_url'', ssh_url)])))))))))))))))))"

definition get_repository_metadata :: "env \<Rightarrow> string \<Rightarrow> string \<Rightarrow> exn + json" where
  "get_repository_metadata E owner repo =
     (case github_client E of
        Some get_repo \<Rightarrow>
          bind_exn (get_repo (owner @ ''/'' @ repo)) metadata_authenticated
      | None \<Rightarrow>
          bind_exn (http_get E (''https://api.github.com/repos/'' @ owner @ ''/'' @ repo))
            (\<lambda>resp.
          bind_exn (raise_for_status resp) (\<lambda>_.
          bind_exn (json_body resp) metadata_fallback)))"

section \<open>Document Fetcher\<close>

definition get_repository_readme :: "env \<Rightarrow> string \<Rightarrow> string \<Rightarrow> exn + string" where
  "get_repository_readme E owner repo =
     (case github_client E of
        Some get_repo \<Rightarrow>
          bind_exn (get_repo (owner @ ''/'' @ repo)) (\<lambda>repo_obj.
          bind_exn (r_get_readme repo_obj) cf_text)
      | None \<Rightarrow>
          bind_exn (http_get E (''https://api.github.com/repos/'' @ owner @ ''/'' @ repo @ ''/readme''))
            (\<lambda>resp.
          bind_exn (raise_for_status resp) (\<lambda>_.
          bind_exn (json_body resp) (\<lambda>data.
          bind_exn (py_getitem data ''content'') (b64_text E)))))"

section \<open>Structure of a repository and the combined summary\<close>

text \<open>
  \<open>get_repository_structure\<close>: fetch the root listing, then build from depth 0.
  As for the metadata, the result is the list that \<open>json.dumps\<close> would print.
\<close>

definition get_repository_structure :: "env \<Rightarrow> string \<Rightarrow> string \<Rightarrow> int \<Rightarrow> exn + node list" where
  "get_repository_structure E owner repo max_depth =
     (case github_client E of
        Some get_repo \<Rightarrow>
          bind_exn (get_repo (owner @ ''/'' @ repo)) (\<lambda>repo_obj.
          bind_exn (r_get_contents repo_obj '''') (\<lambda>conts.
            build_structure_tree (r_get_contents repo_obj) conts max_depth 0))
      | None \<Rightarrow>
          bind_exn (http_get E (''https://api.github.com/repos/'' @ owner @ ''/'' @ repo @ ''/contents''))
            (\<lambda>resp.
          bind_exn (raise_for_status resp) (\<lambda>_.
          bind_exn (json_body resp) (\<lambda>conts.
            build_structure_tree_api (http_get E) (py_repr E) owner repo conts max_depth 0))))"

record repo_info =
  repository_url :: string
  metadata :: json
  readme_preview :: string
  structure_summary :: "node list"

text \<open>
  \<open>get_repo_info\<close>: the three fetches in the order of the code (the first failure
  is the result), the structure at its default depth 3.
\<close>

definition get_repo_info :: "env \<Rightarrow> string \<Rightarrow> exn + repo_info" where
  "get_repo_info E repo_url =
     bind_exn (parse_github_url (url_parser E) repo_url) (\<lambda>(owner, repo).
     bind_exn (get_repository_metadata E owner repo) (\<lambda>md.
     bind_exn (get_repository_readme E owner repo) (\<lambda>readme.
     bind_exn (get_repository_structure E owner repo 3) (\<lambda>structure.
       Inr \<lparr>repository_url = repo_url,
            metadata = md,
            readme_preview = (if length readme > 500 then take 500 readme @ ''...'' else readme),
            structure_summary = take 10 structure\<rparr>))))"

section \<open>Dependency Manifest Aggregator\<close>

text \<open>
  \<open>_parse_dependency_file\<close>. The body of the \<open>try\<close> is \<open>parse_body\<close>; the handler
  turns any exception into the record with the key \<open>error\<close>.
\<close>

definition requirement_lines :: "string \<Rightarrow> string list" where
  "requirement_lines content =
     map strip (filter (\<lambda>line. strip line \<noteq> [] \<and> \<not> startswith line CHR ''#'')
                  (split CHR 0x0A content))"

definition parse_body :: "(string \<Rightarrow> exn + json) \<Rightarrow> string \<Rightarrow> string \<Rightarrow> exn + json" where
  "parse_body loads file_name content =
     (if file_name = ''package.json'' then
        bind_exn (loads content) (\<lambda>data.
        bind_exn (py_get data ''dependencies'' (JObj [])) (\<lambda>deps.
        bind_exn (py_get data ''devDependencies'' (JObj [])) (\<lambda>dev.
        bind_exn (py_get data ''scripts'' (JObj [])) (\<lambda>scripts.
          Inr (JObj [(''dependencies'', deps), (''devDependencies'', dev),
                     (''scripts'', scripts)])))))
      else if file_name = ''requirements.txt'' then
        Inr (JObj [(''requirements'', JArr (map JStr (requirement_lines content)))])
      else if file_name \<in> set [''pyproject.toml'', ''Cargo.toml''] then
        Inr (JObj [(''content'',
               JStr (if length content > 500 then take 500 content @ ''...'' else content))])
      else
        Inr (JObj [(''content'',
               JStr (if length content > 500 then take 500 content @ ''...'' else content))]))"

definition parse_dependency_file :: "(string \<Rightarrow> exn + json) \<Rightarrow> string \<Rightarrow> string \<Rightarrow> json" where
  "parse_dependency_file loads file_name content =
     (case parse_body loads file_name content of
        Inl e \<Rightarrow> JObj [(''error'', JStr (''Could not parse '' @ file_name))]
      | Inr summary \<Rightarrow> summary)"

definition dependency_files :: "string list" where
  "dependency_files =
     [''package.json'', ''requirements.txt'', ''Pipfile'', ''pyproject.toml'', ''Gemfile'',
      ''composer.json'', ''pom.xml'', ''build.gradle'', ''Cargo.toml'', ''go.mod'']"

text \<open>
  The loop of the authenticated path. Its handler is \<open>except GithubException\<close>: an
  exception of that class skips the file, any other leaves the loop and reaches the
  outer handler, which raises it again. Reading \<open>decoded_content\<close> of a directory
  listing is an \<open>AttributeError\<close>.
\<close>

definition is_github_exception :: "exn \<Rightarrow> bool" where
  "is_github_exception e = (case e of GithubException _ \<Rightarrow> True | _ \<Rightarrow> False)"

definition fetch_authenticated :: "repository \<Rightarrow> string \<Rightarrow> exn + string" where
  "fetch_authenticated repo_obj file_name =
     bind_exn (r_get_contents repo_obj file_name) (\<lambda>file_content.
       case file_content of
         Single cf \<Rightarrow> cf_text cf
       | Listing cs \<Rightarrow> Inl AttributeError)"

fun scan_authenticated ::
  "(string \<Rightarrow> exn + json) \<Rightarrow> repository \<Rightarrow> string list \<Rightarrow> (string \<times> json) list
    \<Rightarrow> exn + (string \<times> json) list"
where
  "scan_authenticated loads repo_obj [] dependencies = Inr dependencies"
| "scan_authenticated loads repo_obj (file_name # rest) dependencies =
     (case fetch_authenticated repo_obj file_name of
        Inl e \<Rightarrow>
          if is_github_exception e then scan_authenticated loads repo_obj rest dependencies
          else Inl e
      | Inr content \<Rightarrow>
          scan_authenticated loads repo_obj rest
            (AList.update file_name (parse_dependency_file loads file_name content) dependencies))"

text \<open>
  The loop of the fallback path. Its handler is \<open>except Exception\<close>; a status other
  than 200 does nothing.
\<close>

definition fetch_fallback :: "env \<Rightarrow> string \<Rightarrow> string \<Rightarrow> string \<Rightarrow> exn + string option" where
  "fetch_fallback E owner repo file_name =
     bind_exn (http_get E (''https://api.github.com/repos/'' @ owner @ ''/'' @ repo @
                            ''/contents/'' @ file_name)) (\<lambda>resp.
       if status_code resp = 200
       then bind_exn (json_body resp) (\<lambda>data.
            bind_exn (py_getitem data ''content'') (\<lambda>c.
            bind_exn (b64_text E c) (\<lambda>content. Inr (Some content))))
       else Inr None)"

fun scan_fallback ::
  "env \<Rightarrow> string \<Rightarrow> string \<Rightarrow> string list \<Rightarrow> (string \<times> json) list \<Rightarrow> (string \<times> json) list"
where
  "scan_fallback E owner repo [] dependencies = dependencies"
| "scan_fallback E owner repo (file_name # rest) dependencies =
     (case fetch_fallback E owner repo file_name of
        Inl e \<Rightarrow> scan_fallback E owner repo rest dependencies
      | Inr None \<Rightarrow> scan_fallback E owner repo rest dependencies
      | Inr (Some content) \<Rightarrow>
          scan_fallback E owner repo rest
            (AList.update file_name (parse_dependency_file (json_loads E) file_name content)
               dependencies))"

text \<open>
  \<open>analyze_repo_dependencies\<close>: the mapping from file name to summary that
  \<open>json.dumps\<close> prints.
\<close>

definition analyze_repo_dependencies :: "env \<Rightarrow> string \<Rightarrow> exn + (string \<times> json) list" where
  "analyze_repo_dependencies E repo_url =
     bind_exn (parse_github_url (url_parser E) repo_url) (\<lambda>(owner, repo).
       case github_client E of
         Some get_repo \<Rightarrow>
           bind_exn (get_repo (owner @ ''/'' @ repo)) (\<lambda>repo_obj.
             scan_authenticated (json_loads E) repo_obj dependency_files [])
       | None \<Rightarrow> Inr (scan_fallback E owner repo dependency_files []))"

section \<open>Notions the properties of the builder are stated with\<close>

text \<open>The number of components of a path: its non-empty segments between slashes.\<close>

definition components :: "string \<Rightarrow> nat" where
  "components p = length (filter (\<lambda>s. s \<noteq> []) (split CHR ''/'' p))"

definition path_components :: "json \<Rightarrow> nat" where
  "path_components v = (case v of JStr p \<Rightarrow> components p | _ \<Rightarrow> 0)"

text \<open>
  A listing lies within \<open>k\<close> when none of its entries has a path of more than \<open>k\<close>
  components. A repository keeps its paths when the listing of a directory lies
  within one more than the directory's own path: the service lists the entries of
  \<open>p\<close> under \<open>p/name\<close>. On the fallback path the paths are the strings \<open>p\<close> the
  service is asked for, and the path of an entry of a listing that lies within a
  bound is a string, as the service sends it.
\<close>

definition listing_within :: "nat \<Rightarrow> contents \<Rightarrow> bool" where
  "listing_within k conts =
     (case conts of
        Listing cs \<Rightarrow> list_all (\<lambda>c. components (cf_path c) \<le> k) cs
      | Single c \<Rightarrow> True)"

definition keeps_paths :: "(string \<Rightarrow> exn + contents) \<Rightarrow> bool" where
  "keeps_paths get_contents =
     (\<forall>p sub. get_contents p = Inr sub \<longrightarrow> listing_within (components p + 1) sub)"

definition entry_within :: "nat \<Rightarrow> json \<Rightarrow> bool" where
  "entry_within k c =
     (case py_getitem c ''path'' of
        Inl e \<Rightarrow> True
      | Inr pa \<Rightarrow> (case pa of JStr p \<Rightarrow> components p \<le> k | _ \<Rightarrow> False))"

definition listing_within_api :: "nat \<Rightarrow> json \<Rightarrow> bool" where
  "listing_within_api k conts =
     (case py_iter conts of Inl e \<Rightarrow> True | Inr cs \<Rightarrow> list_all (entry_within k) cs)"

definition keeps_paths_api ::
  "(string \<Rightarrow> exn + response) \<Rightarrow> (json \<Rightarrow> string) \<Rightarrow> string \<Rightarrow> string \<Rightarrow> bool"
where
  "keeps_paths_api requests_get repr owner repo =
     (\<forall>p resp sub.
        requests_get (contents_url repr owner repo (JStr p)) = Inr resp \<and>
        status_code resp = 200 \<and> json_body resp = Inr sub \<longrightarrow>
        listing_within_api (components p + 1) sub)"

text \<open>An entry of a JSON listing that has the three keys the builder reads.\<close>

definition well_formed_entry :: "json \<Rightarrow> bool" where
  "well_formed_entry c =
     (case c of
        JObj kvs \<Rightarrow>
          map_of kvs ''name'' \<noteq> None \<and> map_of kvs ''type'' \<noteq> None \<and> map_of kvs ''path'' \<noteq> None
      | _ \<Rightarrow> False)"

text \<open>
  The listing request of the fallback path fails: \<open>requests.get\<close> raises, or the
  status is not 200, or \<open>response.json()\<close> raises.
\<close>

definition listing_fails_api :: "(string \<Rightarrow> exn + response) \<Rightarrow> string \<Rightarrow> bool" where
  "listing_fails_api requests_get url =
     (case requests_get url of
        Inl e \<Rightarrow> True
      | Inr resp \<Rightarrow> status_code resp \<noteq> 200 \<or> isl (json_body resp))"

text \<open>The node the fallback builder emits for a well-formed entry, children apart.\<close>

definition entry_fields :: "json \<Rightarrow> node \<Rightarrow> bool" where
  "entry_fields c n =
     (py_getitem c ''name'' = Inr (nd_name n) \<and> py_getitem c ''type'' = Inr (nd_type n) \<and>
      py_getitem c ''path'' = Inr (nd_path n))"

text \<open>Every node of the tree \<open>t\<close> has a path of at most \<open>k\<close> components.\<close>

definition tree_within :: "int \<Rightarrow> node \<Rightarrow> bool" where
  "tree_within k t = list_all (\<lambda>n. int (path_components (nd_path n)) \<le> k) (all_nodes t)"

section \<open>An example repository\<close>

text \<open>
  A small repository \<open>octocat/hello\<close>, once as the authenticated client shows it and
  once as the REST interface does: a file \<open>README.md\<close>, a directory \<open>src\<close> with a
  file and a directory \<open>src/lib\<close>, and a directory \<open>docs\<close> that cannot be listed.
\<close>

definition demo_entry :: "string \<Rightarrow> string \<Rightarrow> string \<Rightarrow> int \<Rightarrow> content_file" where
  "demo_entry nm ty pa sz =
     \<lparr>cf_name = nm, cf_type = ty, cf_path = pa, cf_size = sz, cf_text = Inl UnicodeDecodeError\<rparr>"

definition demo_root :: "content_file list" where
  "demo_root =
     [demo_entry ''README.md'' ''file'' ''README.md'' 12,
      demo_entry ''src'' ''dir'' ''src'' 0,
      demo_entry ''docs'' ''dir'' ''docs'' 0]"

definition demo_get_contents :: "string \<Rightarrow> exn + contents" where
  "demo_get_contents p =
     (if p = ''src'' then
        Inr (Listing [demo_entry ''main.py'' ''file'' ''src/main.py'' 40,
                      demo_entry ''lib'' ''dir'' ''src/lib'' 0])
      else if p = ''src/lib'' then
        Inr (Listing [demo_entry ''util.py'' ''file'' ''src/lib/util.py'' 7])
      else if p = ''docs'' then Inl (GithubException 403)
      else Inl (GithubException 404))"

definition demo_json_entry :: "string \<Rightarrow> string \<Rightarrow> string \<Rightarrow> int \<Rightarrow> json" where
  "demo_json_entry nm ty pa sz =
     JObj [(''name'', JStr nm), (''path'', JStr pa), (''size'', JInt sz), (''type'', JStr ty)]"

definition demo_root_json :: json where
  "demo_root_json =
     JArr [demo_json_entry ''README.md'' ''file'' ''README.md'' 12,
           demo_json_entry ''src'' ''dir'' ''src'' 0,
           demo_json_entry ''docs'' ''dir'' ''docs'' 0]"

definition demo_requests_get :: "string \<Rightarrow> exn + response" where
  "demo_requests_get url =
     (if url = ''https://api.github.com/repos/octocat/hello/contents/src'' then
        Inr \<lparr>status_code = 200,
             json_body = Inr (JArr [demo_json_entry ''main.py'' ''file'' ''src/main.py'' 40,
                                    demo_json_entry ''lib'' ''dir'' ''src/lib'' 0])\<rparr>
      else if url = ''https://api.github.com/repos/octocat/hello/contents/src/lib'' then
        Inr \<lparr>status_code = 200,
             json_body = Inr (JArr [demo_json_entry ''util.py'' ''file'' ''src/lib/util.py'' 7])\<rparr>
      else if url = ''https://api.github.com/repos/octocat/hello/contents/docs'' then
        Inr \<lparr>status_code = 403, json_body = Inr (JObj [(''message'', JStr ''Forbidden'')])\<rparr>
      else Inl RequestException)"

definition demo_repr :: "json \<Rightarrow> string" where
  "demo_repr v =
     (case v of
        JNull \<Rightarrow> ''None''
      | JBool b \<Rightarrow> (if b then ''True'' else ''False'')
      | _ \<Rightarrow> ''<value>'')"

section \<open>Example environments\<close>

text \<open>
  The repository \<open>octocat/hello\<close> seen through both paths. Its root has fifteen
  files, its README has 600 characters, its \<open>package.json\<close> is the one of the
  specification's example, and the bytes of its \<open>requirements.txt\<close> are not UTF-8.
\<close>

definition demo_datetime :: datetime where
  "demo_datetime =
     \<lparr>dt_year = 2011, dt_month = 1, dt_day = 26, dt_hour = 19, dt_minute = 1, dt_second = 12,
      dt_microsecond = 0, dt_utcoffset = Some 0\<rparr>"

definition demo_readme :: string where
  "demo_readme = replicate 600 CHR ''x''"

definition demo_package_json :: string where
  \<open>demo_package_json = ''{"dependencies":{"a":"1.0"},"scripts":{"build":"x"}}''\<close>

definition demo_wide_root :: "content_file list" where
  "demo_wide_root = map (\<lambda>c. demo_entry [c] ''file'' [c] 1) ''abcdefghijklmno''"

definition demo_file :: "string \<Rightarrow> exn + string \<Rightarrow> contents" where
  "demo_file nm txt =
     Single \<lparr>cf_name = nm, cf_type = ''file'', cf_path = nm, cf_size = 1, cf_text = txt\<rparr>"

definition demo_repo_contents :: "string \<Rightarrow> exn + contents" where
  "demo_repo_contents p =
     (if p = '''' then Inr (Listing demo_wide_root)
      else if p = ''package.json'' then Inr (demo_file ''package.json'' (Inr demo_package_json))
      else if p = ''requirements.txt'' then
        Inr (demo_file ''requirements.txt'' (Inl UnicodeDecodeError))
      else Inl (GithubException 404))"

definition demo_repo :: repository where
  "demo_repo =
     \<lparr>r_name = ''hello'', r_full_name = ''octocat/hello'',
      r_description = Some ''My first repository'', r_language = None,
      r_stargazers_count = 80, r_forks_count = 9, r_open_issues_count = 0,
      r_created_at = demo_datetime, r_updated_at = demo_datetime, r_size = 108,
      r_default_branch = ''master'', r_get_topics = Inr [''demo''],
      r_license = Some ''MIT License'', r_homepage = None,
      r_clone_url = ''https://github.com/octocat/hello.git'',
      r_ssh_url = ''git@github.com:octocat/hello.git'',
      r_get_contents = demo_repo_contents,
      r_get_readme =
        Inr \<lparr>cf_name = ''README.md'', cf_type = ''file'', cf_path = ''README.md'',
             cf_size = 600, cf_text = Inr demo_readme\<rparr>\<rparr>"

definition demo_json_loads :: "string \<Rightarrow> exn + json" where
  "demo_json_loads s =
     (if s = demo_package_json then
        Inr (JObj [(''dependencies'', JObj [(''a'', JStr ''1.0'')]),
                   (''scripts'', JObj [(''build'', JStr ''x'')])])
      else Inl JSONDecodeError)"

definition demo_requirements :: string where
  "demo_requirements = ''flask==2.0\<newline># comment\<newline>\<newline>requests\<newline>''"

definition demo_b64 :: "string \<Rightarrow> exn + string" where
  "demo_b64 s =
     (if s = ''eyJkZXBlbmRlbmNpZXMiOnsiYSI6IjEuMCJ9LCJzY3JpcHRzIjp7ImJ1aWxkIjoieCJ9fQ==''
      then Inr demo_package_json
      else if s = ''Zmxhc2s9PTIuMAojIGNvbW1lbnQKCnJlcXVlc3RzCg=='' then Inr demo_requirements
      else if s = ''//8='' then Inl UnicodeDecodeError
      else Inl Base64Error)"

definition demo_metadata_json :: json where
  "demo_metadata_json =
     JObj [(''id'', JInt 1296269),
           (''name'', JStr ''hello''),
           (''full_name'', JStr ''octocat/hello''),
           (''description'', JStr ''My first repository''),
           (''language'', JNull),
           (''stargazers_count'', JInt 80),
           (''forks_count'', JInt 9),
           (''open_issues_count'', JInt 0),
           (''created_at'', JStr ''2011-01-26T19:01:12Z''),
           (''updated_at'', JStr ''2011-01-26T19:01:12Z''),
           (''size'', JInt 108),
           (''default_branch'', JStr ''master''),
           (''topics'', JArr [JStr ''demo'']),
           (''license'', JObj [(''key'', JStr ''mit''), (''name'', JStr ''MIT License'')]),
           (''homepage'', JNull),
           (''clone_url'', JStr ''https://github.com/octocat/hello.git''),
           (''ssh_url'', JStr ''git@github.com:octocat/hello.git'')]"

definition demo_content_response :: "string \<Rightarrow> response" where
  "demo_content_response b64 =
     \<lparr>status_code = 200,
      json_body = Inr (JObj [(''encoding'', JStr ''base64''), (''content'', JStr b64)])\<rparr>"

definition demo_not_found :: response where
  "demo_not_found =
     \<lparr>status_code = 404, json_body = Inr (JObj [(''message'', JStr ''Not Found'')])\<rparr>"

definition demo_http :: "string \<Rightarrow> exn + response" where
  "demo_http url =
     (if url = ''https://api.github.com/repos/octocat/hello'' then
        Inr \<lparr>status_code = 200, json_body = Inr demo_metadata_json\<rparr>
      else if url = ''https://api.github.com/repos/octocat/hello/contents/package.json'' then
        Inr (demo_content_response
               ''eyJkZXBlbmRlbmNpZXMiOnsiYSI6IjEuMCJ9LCJzY3JpcHRzIjp7ImJ1aWxkIjoieCJ9fQ=='')
      else if url = ''https://api.github.com/repos/octocat/hello/contents/requirements.txt'' then
        Inr (demo_content_response ''//8='')
      else Inr demo_not_found)"

definition demo_env_authenticated :: env where
  "demo_env_authenticated =
     \<lparr>github_client =
        Some (\<lambda>full_name. if full_name = ''octocat/hello'' then Inr demo_repo
                          else Inl (GithubException 404)),
      http_get = (\<lambda>url. Inl RequestException),
      url_parser = urlparse,
      json_loads = demo_json_loads,
      b64decode_utf8 = demo_b64,
      py_repr = demo_repr\<rparr>"

definition demo_env_fallback :: env where
  "demo_env_fallback =
     \<lparr>github_client = None,
      http_get = demo_http,
      url_parser = urlparse,
      json_loads = demo_json_loads,
      b64decode_utf8 = demo_b64,
      py_repr = demo_repr\<rparr>"

text \<open>
  A second repository, \<open>octocat/reqs\<close>, that contains only \<open>requirements.txt\<close>, with
  the content of the specification's example.
\<close>

definition reqs_repo :: repository where
  "reqs_repo =
     demo_repo
       \<lparr>r_name := ''reqs'', r_full_name := ''octocat/reqs'',
        r_get_contents :=
          (\<lambda>p. if p = ''requirements.txt''
               then Inr (demo_file ''requirements.txt'' (Inr demo_requirements))
               else Inl (GithubException 404))\<rparr>"

definition reqs_env_authenticated :: env where
  "reqs_env_authenticated =
     demo_env_authenticated
       \<lparr>github_client :=
          Some (\<lambda>full_name. if full_name = ''octocat/reqs'' then Inr reqs_repo
                            else Inl (GithubException 404))\<rparr>"

definition reqs_env_fallback :: env where
  "reqs_env_fallback =
     demo_env_fallback
       \<lparr>http_get :=
          (\<lambda>url. if url = ''https://api.github.com/repos/octocat/reqs/contents/requirements.txt''
                 then Inr (demo_content_response ''Zmxhc2s9PTIuMAojIGNvbW1lbnQKCnJlcXVlc3RzCg=='')
                 else Inr demo_not_found)\<rparr>"

section \<open>Notions the properties of the fetchers are stated with\<close>

definition is_dict :: "json \<Rightarrow> bool" where
  "is_dict v = (case v of JObj kvs \<Rightarrow> True | _ \<Rightarrow> False)"

text \<open>
  The summary of \<open>requirements.txt\<close> in the specification's words: split into lines,
  drop the blank lines and the lines with a leading \<open>#\<close>, keep the rest verbatim
  and in order. It is compared with \<open>requirement_lines\<close>, which follows the code.
\<close>

definition spec_requirement_lines :: "string \<Rightarrow> string list" where
  "spec_requirement_lines content =
     filter (\<lambda>line. line \<noteq> [] \<and> \<not> startswith line CHR ''#'') (split CHR 0x0A content)"

text \<open>
  Equivalent underlying data for the two paths of the Metadata Fetcher: the JSON
  record \<open>data\<close> of the REST interface carries, under the keys the fallback path
  reads, the values of the attributes of the repository object \<open>r\<close> and the topics
  that \<open>get_topics\<close> returns; a timestamp is the service's text for the same
  instant, \<open>YYYY-MM-DDTHH:MM:SSZ\<close>; the licence is \<open>null\<close> or absent when the
  object has none and otherwise an object with the same \<open>name\<close>.
\<close>

definition rest_timestamp :: "datetime \<Rightarrow> string" where
  "rest_timestamp d =
     zero_pad 4 (dt_year d) @ ''-'' @ zero_pad 2 (dt_month d) @ ''-'' @ zero_pad 2 (dt_day d) @
     ''T'' @ zero_pad 2 (dt_hour d) @ '':'' @ zero_pad 2 (dt_minute d) @ '':'' @
     zero_pad 2 (dt_second d) @ ''Z''"

definition equivalent_data :: "repository \<Rightarrow> string list \<Rightarrow> json \<Rightarrow> bool" where
  "equivalent_data r topics data =
     (py_getitem data ''name'' = Inr (JStr (r_name r)) \<and>
      py_getitem data ''full_name'' = Inr (JStr (r_full_name r)) \<and>
      py_getitem data ''description'' = Inr (opt_str (r_description r)) \<and>
      py_getitem data ''language'' = Inr (opt_str (r_language r)) \<and>
      py_getitem data ''stargazers_count'' = Inr (JInt (r_stargazers_count r)) \<and>
      py_getitem data ''forks_count'' = Inr (JInt (r_forks_count r)) \<and>
      py_getitem data ''open_issues_count'' = Inr (JInt (r_open_issues_count r)) \<and>
      py_getitem data ''created_at'' = Inr (JStr (rest_timestamp (r_created_at r))) \<and>
      py_getitem data ''updated_at'' = Inr (JStr (rest_timestamp (r_updated_at r))) \<and>
      py_getitem data ''size'' = Inr (JInt (r_size r)) \<and>
      py_getitem data ''default_branch'' = Inr (JStr (r_default_branch r)) \<and>
      py_get data ''topics'' (JArr []) = Inr (JArr (map JStr topics)) \<and>
      (case r_license r of
         None \<Rightarrow> py_get data ''license'' JNull = Inr JNull
       | Some n \<Rightarrow>
           (case py_getitem data ''license'' of
              Inl e \<Rightarrow> False
            | Inr lic \<Rightarrow> py_truthy lic \<and> py_getitem lic ''name'' = Inr (JStr n))) \<and>
      py_getitem data ''homepage'' = Inr (opt_str (r_homepage r)) \<and>
      py_getitem data ''clone_url'' = Inr (JStr (r_clone_url r)) \<and>
      py_getitem data ''ssh_url'' = Inr (JStr (r_ssh_url r)))"

section \<open>A repository with a directory named like a number\<close>

text \<open>
  The repository \<open>octocat/years\<close> on the fallback path: a directory \<open>2023\<close> that holds
  \<open>2023/day1.py\<close>, and a file. \<open>scalar_repr\<close> is Python's text of the scalar values,
  so the number 2023 and the string \<open>2023\<close> are formatted alike.
\<close>

definition scalar_repr :: "json \<Rightarrow> string" where
  "scalar_repr v =
     (case v of
        JNull \<Rightarrow> ''None''
      | JBool b \<Rightarrow> (if b then ''True'' else ''False'')
      | JInt i \<Rightarrow> (if i < 0 then ''-'' else '''') @ decimal (nat \<bar>i\<bar>)
      | _ \<Rightarrow> ''<value>'')"

definition years_root_json :: json where
  "years_root_json =
     JArr [demo_json_entry ''2023'' ''dir'' ''2023'' 0,
           demo_json_entry ''README.md'' ''file'' ''README.md'' 12]"

definition years_requests_get :: "string \<Rightarrow> exn + response" where
  "years_requests_get url =
     (if url = ''https://api.github.com/repos/octocat/years/contents/2023'' then
        Inr \<lparr>status_code = 200,
             json_body = Inr (JArr [demo_json_entry ''day1.py'' ''file'' ''2023/day1.py'' 30])\<rparr>
      else Inr demo_not_found)"

section \<open>The builder at and beyond its depth bound\<close>

declare build_structure_tree.simps [simp del]
declare structure_item.simps [simp del]
declare build_structure_tree_api.simps [simp del]
declare structure_item_api.simps [simp del]

lemma build_structure_tree_at_bound:
  "current_depth \<ge> max_depth \<Longrightarrow>
     build_structure_tree get_contents conts max_depth current_depth = Inr []"
  by (simp add: build_structure_tree.simps)

lemma build_structure_tree_api_at_bound:
  "current_depth \<ge> max_depth \<Longrightarrow>
     build_structure_tree_api requests_get repr owner repo conts max_depth current_depth = Inr []"
  by (simp add: build_structure_tree_api.simps)

text \<open>
  Claim C10. For every integer \<open>max_depth\<close> that is zero or negative, both variants
  of the Structure Tree Builder, called as the server calls them (at depth 0), return
  the empty sequence and raise nothing: the depth test comes before the entries are
  looked at.
\<close>

theorem nonpositive_max_depth_empty:
  "max_depth \<le> 0 \<Longrightarrow>
     build_structure_tree get_contents conts max_depth 0 = Inr [] \<and>
     build_structure_tree_api requests_get repr owner repo jconts max_depth 0 = Inr []"
  by (simp add: build_structure_tree_at_bound build_structure_tree_api_at_bound)

theorem nonpositive_max_depth_empty_witness:
  "(-3::int) \<le> 0 \<and>
   build_structure_tree (\<lambda>p. Inl (GithubException 404))
     (Listing [\<lparr>cf_name = ''src'', cf_type = ''dir'', cf_path = ''src'', cf_size = 0,
                cf_text = Inl AttributeError\<rparr>]) (-3) 0 = Inr [] \<and>
   build_structure_tree_api (\<lambda>u. Inl RequestException) (\<lambda>v. ''None'') ''octocat'' ''hello''
     (JInt 7) (-3) 0 = Inr []"
  using nonpositive_max_depth_empty [of "-3" "\<lambda>p. Inl (GithubException 404)"
      "Listing [\<lparr>cf_name = ''src'', cf_type = ''dir'', cf_path = ''src'', cf_size = 0,
                cf_text = Inl AttributeError\<rparr>]"
      "\<lambda>u. Inl RequestException" "\<lambda>v. ''None''" "''octocat''" "''hello''" "JInt 7"]
  by simp

lemmas demo_defs =
  demo_entry_def demo_root_def demo_get_contents_def demo_json_entry_def
  demo_root_json_def demo_requests_get_def demo_repr_def

lemmas json_ops = py_iter_def py_getitem_def py_get_def

section \<open>One level of the traversal\<close>

lemma sequence_exn_all_Inr:
  "(\<And>x. x \<in> set xs \<Longrightarrow> \<exists>y. f x = Inr y \<and> Q x y) \<Longrightarrow>
     \<exists>ys. sequence_exn (map f xs) = Inr ys \<and> list_all2 Q xs ys"
proof (induction xs)
  case Nil
  then show ?case by simp
next
  case (Cons x xs)
  from Cons.prems obtain y where y: "f x = Inr y" "Q x y" by auto
  from Cons.IH Cons.prems obtain ys
    where ys: "sequence_exn (map f xs) = Inr ys" "list_all2 Q xs ys"
    by auto
  show ?case using y ys by simp
qed

lemma sequence_exn_Inr_set:
  "sequence_exn (map f xs) = Inr ys \<Longrightarrow> y \<in> set ys \<Longrightarrow> \<exists>x\<in>set xs. f x = Inr y"
proof (induction xs arbitrary: ys)
  case Nil
  then show ?case by simp
next
  case (Cons x xs)
  then show ?case by (auto split: sum.splits)
qed

lemma structure_item_fields:
  "nd_name (structure_item gc m d c) = JStr (cf_name c)"
  "nd_type (structure_item gc m d c) = JStr (cf_type c)"
  "nd_path (structure_item gc m d c) = JStr (cf_path c)"
  by (simp_all add: structure_item.simps)

lemma structure_item_unexpanded:
  "\<not> d < m - 1 \<Longrightarrow> nd_children (structure_item gc m d c) = None"
  by (simp add: structure_item.simps)


lemma build_structure_tree_listing:
  "d < m \<Longrightarrow> build_structure_tree gc (Listing cs) m d = Inr (map (structure_item gc m d) cs)"
  by (simp add: build_structure_tree.simps)

text \<open>
  What the fallback builder emits for a well-formed entry: a node with the entry's
  fields, without children at the last level, with empty children where the listing
  request failed.
\<close>

lemma structure_item_api_well_formed:
  assumes "well_formed_entry c"
  shows "\<exists>n. structure_item_api rg repr owner repo m d c = Inr n \<and> entry_fields c n \<and>
           (\<not> d < m - 1 \<longrightarrow> nd_children n = None) \<and>
           (nd_type n = JStr ''dir'' \<and> d < m - 1 \<and>
              listing_fails_api rg (contents_url repr owner repo (nd_path n))
            \<longrightarrow> nd_children n = Some [])"
proof -
  from assms obtain kvs nm ty pa where c: "c = JObj kvs" "map_of kvs ''name'' = Some nm"
      "map_of kvs ''type'' = Some ty" "map_of kvs ''path'' = Some pa"
    by (auto simp: well_formed_entry_def split: json.splits)
  then show ?thesis
    by (auto simp: structure_item_api.simps py_getitem_def py_get_def entry_fields_def
                   listing_fails_api_def split: option.splits sum.splits)
qed

lemma build_structure_tree_api_level:
  assumes "d < m" "py_iter conts = Inr cs" "list_all well_formed_entry cs"
  shows "\<exists>ns. build_structure_tree_api rg repr owner repo conts m d = Inr ns \<and>
           list_all2 (\<lambda>c n. entry_fields c n \<and>
             (\<not> d < m - 1 \<longrightarrow> nd_children n = None) \<and>
             (nd_type n = JStr ''dir'' \<and> d < m - 1 \<and>
                listing_fails_api rg (contents_url repr owner repo (nd_path n))
              \<longrightarrow> nd_children n = Some [])) cs ns"
proof -
  have "\<exists>ns. sequence_exn (map (structure_item_api rg repr owner repo m d) cs) = Inr ns \<and>
           list_all2 (\<lambda>c n. entry_fields c n \<and>
             (\<not> d < m - 1 \<longrightarrow> nd_children n = None) \<and>
             (nd_type n = JStr ''dir'' \<and> d < m - 1 \<and>
                listing_fails_api rg (contents_url repr owner repo (nd_path n))
              \<longrightarrow> nd_children n = Some [])) cs ns"
    by (rule sequence_exn_all_Inr)
       (use assms(3) structure_item_api_well_formed in \<open>auto simp: list_all_iff\<close>)
  then show ?thesis
    using assms(1,2) by (simp add: build_structure_tree_api.simps)
qed

section \<open>Directories at the last level\<close>

text \<open>
  Claim C6, as the code has it. The claim asks for an empty children sequence on a
  directory that the depth bound keeps from being expanded. In the example, with
  \<open>max_depth = 1\<close>, the nodes of the directories \<open>src\<close> and \<open>docs\<close> have no children
  field at all, on both paths.
\<close>

theorem unexpanded_directory_counterexample:
  "build_structure_tree demo_get_contents (Listing demo_root) 1 0 =
     Inr [Node (JStr ''README.md'') (JStr ''file'') (JStr ''README.md'') (JInt 12) None,
          Node (JStr ''src'') (JStr ''dir'') (JStr ''src'') JNull None,
          Node (JStr ''docs'') (JStr ''dir'') (JStr ''docs'') JNull None] \<and>
   build_structure_tree_api demo_requests_get demo_repr ''octocat'' ''hello'' demo_root_json 1 0 =
     Inr [Node (JStr ''README.md'') (JStr ''file'') (JStr ''README.md'') (JInt 12) None,
          Node (JStr ''src'') (JStr ''dir'') (JStr ''src'') JNull None,
          Node (JStr ''docs'') (JStr ''dir'') (JStr ''docs'') JNull None] \<and>
   nd_children (Node (JStr ''src'') (JStr ''dir'') (JStr ''src'') JNull None) \<noteq> Some []"
  by (simp add: build_structure_tree.simps structure_item.simps
                build_structure_tree_api.simps structure_item_api.simps demo_defs json_ops)

text \<open>
  Claim C6, amended. For every listing met at a depth that is below \<open>max_depth\<close> but
  not below \<open>max_depth - 1\<close>, each entry gets one node, in order, and that node, a
  directory's included, has no children field (the key is absent, not an empty
  sequence). On the fallback path this is said of listings whose entries have the
  keys \<open>name\<close>, \<open>type\<close> and \<open>path\<close>.
\<close>

theorem unexpanded_directory_has_no_children:
  "(d < m \<and> \<not> d < m - 1 \<longrightarrow>
      (\<exists>ns. build_structure_tree gc (Listing cs) m d = Inr ns \<and> length ns = length cs \<and>
         (\<forall>j<length cs. nd_name (ns ! j) = JStr (cf_name (cs ! j)) \<and>
                         nd_type (ns ! j) = JStr (cf_type (cs ! j)) \<and>
                         nd_children (ns ! j) = None))) \<and>
   (d < m \<and> \<not> d < m - 1 \<and> py_iter jconts = Inr jcs \<and> list_all well_formed_entry jcs \<longrightarrow>
      (\<exists>ns. build_structure_tree_api rg repr owner repo jconts m d = Inr ns \<and>
         length ns = length jcs \<and>
         (\<forall>j<length jcs. entry_fields (jcs ! j) (ns ! j) \<and> nd_children (ns ! j) = None)))"
proof (intro conjI impI)
  assume "d < m \<and> \<not> d < m - 1"
  then show "\<exists>ns. build_structure_tree gc (Listing cs) m d = Inr ns \<and> length ns = length cs \<and>
         (\<forall>j<length cs. nd_name (ns ! j) = JStr (cf_name (cs ! j)) \<and>
                         nd_type (ns ! j) = JStr (cf_type (cs ! j)) \<and>
                         nd_children (ns ! j) = None)"
    by (simp add: build_structure_tree_listing structure_item_fields structure_item_unexpanded)
next
  assume a: "d < m \<and> \<not> d < m - 1 \<and> py_iter jconts = Inr jcs \<and> list_all well_formed_entry jcs"
  then obtain ns where ns: "build_structure_tree_api rg repr owner repo jconts m d = Inr ns"
    and all: "list_all2 (\<lambda>c n. entry_fields c n \<and>
             (\<not> d < m - 1 \<longrightarrow> nd_children n = None) \<and>
             (nd_type n = JStr ''dir'' \<and> d < m - 1 \<and>
                listing_fails_api rg (contents_url repr owner repo (nd_path n))
              \<longrightarrow> nd_children n = Some [])) jcs ns"
    using build_structure_tree_api_level [of d m jconts jcs rg repr owner repo] by blast
  from all have "length ns = length jcs"
    by (simp add: list_all2_lengthD)
  moreover from all a have "\<forall>j<length jcs. entry_fields (jcs ! j) (ns ! j) \<and> nd_children (ns ! j) = None"
    by (simp add: list_all2_conv_all_nth)
  ultimately show "\<exists>ns. build_structure_tree_api rg repr owner repo jconts m d = Inr ns \<and>
         length ns = length jcs \<and>
         (\<forall>j<length jcs. entry_fields (jcs ! j) (ns ! j) \<and> nd_children (ns ! j) = None)"
    using ns by blast
qed

theorem unexpanded_directory_has_no_children_witness:
  "((0::int) < 1 \<and> \<not> (0::int) < 1 - 1) \<and>
   (py_iter demo_root_json =
      Inr [demo_json_entry ''README.md'' ''file'' ''README.md'' 12,
           demo_json_entry ''src'' ''dir'' ''src'' 0,
           demo_json_entry ''docs'' ''dir'' ''docs'' 0] \<and>
    list_all well_formed_entry
      [demo_json_entry ''README.md'' ''file'' ''README.md'' 12,
       demo_json_entry ''src'' ''dir'' ''src'' 0,
       demo_json_entry ''docs'' ''dir'' ''docs'' 0]) \<and>
   (\<exists>ns. build_structure_tree demo_get_contents (Listing demo_root) 1 0 = Inr ns \<and>
      length ns = length demo_root \<and>
      (\<forall>j<length demo_root. nd_name (ns ! j) = JStr (cf_name (demo_root ! j)) \<and>
                             nd_type (ns ! j) = JStr (cf_type (demo_root ! j)) \<and>
                             nd_children (ns ! j) = None)) \<and>
   (\<exists>ns. build_structure_tree_api demo_requests_get demo_repr ''octocat'' ''hello''
            demo_root_json 1 0 = Inr ns \<and>
      length ns = 3 \<and> nd_children (ns ! 1) = None \<and>
      entry_fields (demo_json_entry ''src'' ''dir'' ''src'' 0) (ns ! 1))"
proof -
  let ?jcs = "[demo_json_entry ''README.md'' ''file'' ''README.md'' 12,
               demo_json_entry ''src'' ''dir'' ''src'' 0,
               demo_json_entry ''docs'' ''dir'' ''docs'' 0]"
  have h1: "(0::int) < 1 \<and> \<not> (0::int) < 1 - 1" by simp
  have h2: "py_iter demo_root_json = Inr ?jcs \<and> list_all well_formed_entry ?jcs"
    by (simp add: demo_defs py_iter_def well_formed_entry_def)
  note inst = unexpanded_directory_has_no_children
    [of 0 1 demo_get_contents demo_root demo_root_json ?jcs demo_requests_get demo_repr
        "''octocat''" "''hello''"]
  from inst h1 have a: "\<exists>ns. build_structure_tree demo_get_contents (Listing demo_root) 1 0 = Inr ns \<and>
      length ns = length demo_root \<and>
      (\<forall>j<length demo_root. nd_name (ns ! j) = JStr (cf_name (demo_root ! j)) \<and>
                             nd_type (ns ! j) = JStr (cf_type (demo_root ! j)) \<and>
                             nd_children (ns ! j) = None)"
    by blast
  from inst h1 h2 obtain ns where
    ns: "build_structure_tree_api demo_requests_get demo_repr ''octocat'' ''hello''
            demo_root_json 1 0 = Inr ns" "length ns = length ?jcs"
        "\<forall>j<length ?jcs. entry_fields (?jcs ! j) (ns ! j) \<and> nd_children (ns ! j) = None"
    by blast
  from ns(3) [rule_format, of 1]
  have "entry_fields (?jcs ! 1) (ns ! 1) \<and> nd_children (ns ! 1) = None"
    by simp
  with ns(1,2) have b: "\<exists>ns. build_structure_tree_api demo_requests_get demo_repr ''octocat'' ''hello''
            demo_root_json 1 0 = Inr ns \<and>
      length ns = 3 \<and> nd_children (ns ! 1) = None \<and>
      entry_fields (demo_json_entry ''src'' ''dir'' ''src'' 0) (ns ! 1)"
    by auto
  from h1 h2 a b show ?thesis by blast
qed

section \<open>Failure isolation\<close>



section \<open>Depth bound on the paths of the result\<close>

lemma listing_within_mono: "listing_within k conts \<Longrightarrow> k \<le> k' \<Longrightarrow> listing_within k' conts"
  by (cases conts) (auto simp: listing_within_def list_all_iff)

lemma entry_within_mono: "entry_within k c \<Longrightarrow> k \<le> k' \<Longrightarrow> entry_within k' c"
proof (cases "py_getitem c ''path''")
  case (Inl e)
  then show ?thesis by (simp add: entry_within_def)
next
  case (Inr pa)
  assume "entry_within k c" "k \<le> k'"
  with Inr show ?thesis by (cases pa) (simp_all add: entry_within_def)
qed

lemma listing_within_api_mono:
  "listing_within_api k conts \<Longrightarrow> k \<le> k' \<Longrightarrow> listing_within_api k' conts"
  by (cases "py_iter conts")
     (auto simp: listing_within_api_def list_all_iff intro: entry_within_mono)

lemma tree_within_Node:
  "tree_within k (Node nm ty pa sz ch) \<longleftrightarrow>
     int (path_components pa) \<le> k \<and>
     (case ch of None \<Rightarrow> True | Some cs \<Rightarrow> list_all (tree_within k) cs)"
  by (cases ch) (auto simp: tree_within_def list_all_iff)

text \<open>
  The authenticated builder, by induction along its own recursion: at depth \<open>d\<close> the
  entries have at most \<open>r + d + 1\<close> components, and \<open>d < max_depth\<close> where a node
  is emitted.
\<close>

lemma build_structure_tree_within:
  "keeps_paths gc \<Longrightarrow> listing_within (r + nat d + 1) conts \<Longrightarrow> 0 \<le> d \<Longrightarrow>
     build_structure_tree gc conts m d = Inr ns \<Longrightarrow> list_all (tree_within (int r + m)) ns"
  and structure_item_within:
  "keeps_paths gc \<Longrightarrow> components (cf_path c) \<le> r + nat d + 1 \<Longrightarrow> 0 \<le> d \<Longrightarrow> d < m \<Longrightarrow>
     tree_within (int r + m) (structure_item gc m d c)"
proof (induction gc conts m d and gc m d c arbitrary: ns
       rule: build_structure_tree_structure_item.induct)
  case (1 gc conts m d)
  show ?case
  proof (cases "m \<le> d")
    case True
    with "1.prems" show ?thesis by (simp add: build_structure_tree.simps)
  next
    case False
    with "1.prems"(4) obtain cs where cs: "conts = Listing cs"
      and ns: "ns = map (structure_item gc m d) cs"
      by (cases conts) (auto simp: build_structure_tree.simps)
    have "tree_within (int r + m) (structure_item gc m d c)" if "c \<in> set cs" for c
    proof (rule "1.IH" [OF False cs that "1.prems"(1) _ "1.prems"(3)])
      show "components (cf_path c) \<le> r + nat d + 1"
        using "1.prems"(2) that cs by (simp add: listing_within_def list_all_iff)
      show "d < m" using False by simp
    qed
    then show ?thesis by (simp add: ns list_all_iff)
  qed
next
  case (2 gc m d c)
  have here: "int (components (cf_path c)) \<le> int r + m"
    using "2.prems" by linarith
  show ?case
  proof (cases "cf_type c = ''dir'' \<and> d < m - 1")
    case False
    then show ?thesis using here
      by (subst structure_item.simps) (auto simp: tree_within_Node path_components_def)
  next
    case True
    show ?thesis
    proof (cases "gc (cf_path c)")
      case (Inl e)
      with True here show ?thesis
        by (subst structure_item.simps) (auto simp: tree_within_Node path_components_def)
    next
      case (Inr sub)
      have sub: "listing_within (r + nat (d + 1) + 1) sub"
      proof (rule listing_within_mono)
        show "listing_within (components (cf_path c) + 1) sub"
          using "2.prems"(1) Inr by (auto simp: keeps_paths_def)
        show "components (cf_path c) + 1 \<le> r + nat (d + 1) + 1"
          using "2.prems"(2,3) by linarith
      qed
      show ?thesis
      proof (cases "build_structure_tree gc sub m (d + 1)")
        case (Inl e)
        with True Inr here show ?thesis
          by (subst structure_item.simps) (auto simp: tree_within_Node path_components_def)
      next
        case (Inr children)
        have "list_all (tree_within (int r + m)) children"
          by (rule "2.IH" [OF True \<open>gc (cf_path c) = Inr sub\<close> "2.prems"(1) sub _ Inr])
             (use "2.prems"(3) in simp)
        with True \<open>gc (cf_path c) = Inr sub\<close> Inr here show ?thesis
          by (subst structure_item.simps) (auto simp: tree_within_Node path_components_def)
      qed
    qed
  qed
qed

text \<open>The same for the fallback builder; a node exists only where the item did not raise.\<close>

lemma structure_item_api_Inr:
  assumes "structure_item_api rg repr owner repo m d c = Inr n"
  obtains nm ty pa sz where
    "py_getitem c ''name'' = Inr nm" "py_getitem c ''type'' = Inr ty"
    "py_getitem c ''path'' = Inr pa"
    "(if ty = JStr ''file'' then py_get c ''size'' JNull else Inr JNull) = Inr sz"
    "n = Node nm ty pa sz
           (if ty = JStr ''dir'' \<and> d < m - 1
            then
              (case rg (contents_url repr owner repo pa) of
                 Inl e \<Rightarrow> Some []
               | Inr resp \<Rightarrow>
                   if status_code resp = 200
                   then
                     (case json_body resp of
                        Inl e \<Rightarrow> Some []
                      | Inr sub_contents \<Rightarrow>
                          (case build_structure_tree_api rg repr owner repo
                                  sub_contents m (d + 1) of
                             Inl e \<Rightarrow> Some []
                           | Inr children \<Rightarrow> Some children))
                   else Some [])
            else None)"
  using assms by (subst (asm) structure_item_api.simps) (auto split: sum.splits)

lemma build_structure_tree_api_within:
  "keeps_paths_api rg repr owner repo \<Longrightarrow> listing_within_api (r + nat d + 1) conts \<Longrightarrow>
     0 \<le> d \<Longrightarrow> build_structure_tree_api rg repr owner repo conts m d = Inr ns \<Longrightarrow>
     list_all (tree_within (int r + m)) ns"
  and structure_item_api_within:
  "keeps_paths_api rg repr owner repo \<Longrightarrow> entry_within (r + nat d + 1) c \<Longrightarrow> 0 \<le> d \<Longrightarrow>
     d < m \<Longrightarrow> structure_item_api rg repr owner repo m d c = Inr n \<Longrightarrow>
     tree_within (int r + m) n"
proof (induction rg repr owner repo conts m d and rg repr owner repo m d c arbitrary: ns and n
       rule: build_structure_tree_api_structure_item_api.induct)
  case (1 rg repr owner repo conts m d)
  show ?case
  proof (cases "m \<le> d")
    case True
    with "1.prems" show ?thesis by (simp add: build_structure_tree_api.simps)
  next
    case False
    with "1.prems"(4) obtain cs where cs: "py_iter conts = Inr cs"
      and ns: "sequence_exn (map (structure_item_api rg repr owner repo m d) cs) = Inr ns"
      by (auto simp: build_structure_tree_api.simps split: sum.splits)
    have "tree_within (int r + m) n" if "n \<in> set ns" for n
    proof -
      from sequence_exn_Inr_set [OF ns that] obtain c where c: "c \<in> set cs"
        and n: "structure_item_api rg repr owner repo m d c = Inr n" by auto
      show ?thesis
      proof (rule "1.IH" [OF False cs c "1.prems"(1) _ "1.prems"(3) _ n])
        show "entry_within (r + nat d + 1) c"
          using "1.prems"(2) c cs by (simp add: listing_within_api_def list_all_iff)
        show "d < m" using False by simp
      qed
    qed
    then show ?thesis by (simp add: list_all_iff)
  qed
next
  case (2 rg repr owner repo m d c)
  from "2.prems"(5) obtain nm ty pa sz where
    f: "py_getitem c ''name'' = Inr nm" "py_getitem c ''type'' = Inr ty"
       "py_getitem c ''path'' = Inr pa"
       "(if ty = JStr ''file'' then py_get c ''size'' JNull else Inr JNull) = Inr sz"
    and n: "n = Node nm ty pa sz
           (if ty = JStr ''dir'' \<and> d < m - 1
            then
              (case rg (contents_url repr owner repo pa) of
                 Inl e \<Rightarrow> Some []
               | Inr resp \<Rightarrow>
                   if status_code resp = 200
                   then
                     (case json_body resp of
                        Inl e \<Rightarrow> Some []
                      | Inr sub_contents \<Rightarrow>
                          (case build_structure_tree_api rg repr owner repo
                                  sub_contents m (d + 1) of
                             Inl e \<Rightarrow> Some []
                           | Inr children \<Rightarrow> Some children))
                   else Some [])
            else None)"
    by (rule structure_item_api_Inr)
  from "2.prems"(2) f(3) obtain p where p: "pa = JStr p" "components p \<le> r + nat d + 1"
    by (cases pa) (simp_all add: entry_within_def)
  have here: "int (path_components pa) \<le> int r + m"
    using "2.prems"(3,4) p by (simp add: path_components_def)
  have kids: "list_all (tree_within (int r + m)) children"
    if "ty = JStr ''dir'' \<and> d < m - 1" "rg (contents_url repr owner repo pa) = Inr resp"
       "status_code resp = 200" "json_body resp = Inr sub"
       "build_structure_tree_api rg repr owner repo sub m (d + 1) = Inr children"
    for resp sub children
  proof (rule "2.IH" [OF f that(1,2,3,4) "2.prems"(1) _ _ that(5)])
    show "listing_within_api (r + nat (d + 1) + 1) sub"
    proof (rule listing_within_api_mono)
      show "listing_within_api (components p + 1) sub"
        using "2.prems"(1) that(2,3,4) p(1) by (auto simp: keeps_paths_api_def)
      show "components p + 1 \<le> r + nat (d + 1) + 1"
        using "2.prems"(3) p(2) by simp
    qed
    show "0 \<le> d + 1" using "2.prems"(3) by simp
  qed
  show ?case
    unfolding n tree_within_Node
    using here kids by (auto split: sum.splits)
qed

text \<open>
  Claim C1. Both variants, called with \<open>max_depth = 0\<close>, return the empty sequence.
  Called with \<open>max_depth = N\<close> on the listing of a root of depth \<open>r\<close> (its entries
  have at most \<open>r + 1\<close> path components) in a repository that lists the entries of a
  directory one component below it, they return a tree in which no node, at any
  level, has a path of more than \<open>r + N\<close> components. On the fallback path the
  repository is asked of through the string paths of its directories, whatever
  text Python gives to values that are not strings, and the variant returns when
  the root entries have the keys it reads. That the recursion ends is the
  termination proof of the two definitions: \<open>max_depth - current_depth\<close> decreases.
\<close>

theorem structure_tree_depth_bound:
  "build_structure_tree gc conts 0 0 = Inr [] \<and>
   build_structure_tree_api rg repr owner repo jconts 0 0 = Inr [] \<and>
   (keeps_paths gc \<and> list_all (\<lambda>c. components (cf_path c) \<le> r + 1) cs \<longrightarrow>
      (\<exists>ns. build_structure_tree gc (Listing cs) N 0 = Inr ns \<and>
            list_all (tree_within (int r + N)) ns)) \<and>
   (keeps_paths_api rg repr owner repo \<and> py_iter jconts = Inr jcs \<and>
    list_all well_formed_entry jcs \<and> list_all (entry_within (r + 1)) jcs \<longrightarrow>
      (\<exists>ns. build_structure_tree_api rg repr owner repo jconts N 0 = Inr ns \<and>
            list_all (tree_within (int r + N)) ns))"
proof (intro conjI impI)
  show "build_structure_tree gc conts 0 0 = Inr []"
    by (simp add: build_structure_tree_at_bound)
  show "build_structure_tree_api rg repr owner repo jconts 0 0 = Inr []"
    by (simp add: build_structure_tree_api_at_bound)
next
  assume a: "keeps_paths gc \<and> list_all (\<lambda>c. components (cf_path c) \<le> r + 1) cs"
  obtain ns where ns: "build_structure_tree gc (Listing cs) N 0 = Inr ns"
    by (cases "0 < N") (simp_all add: build_structure_tree.simps)
  moreover have "list_all (tree_within (int r + N)) ns"
    by (rule build_structure_tree_within [OF _ _ _ ns, of r])
       (use a in \<open>simp_all add: listing_within_def\<close>)
  ultimately show "\<exists>ns. build_structure_tree gc (Listing cs) N 0 = Inr ns \<and>
            list_all (tree_within (int r + N)) ns"
    by blast
next
  assume a: "keeps_paths_api rg repr owner repo \<and> py_iter jconts = Inr jcs \<and>
    list_all well_formed_entry jcs \<and> list_all (entry_within (r + 1)) jcs"
  have "\<exists>ns. build_structure_tree_api rg repr owner repo jconts N 0 = Inr ns"
  proof (cases "0 < N")
    case True
    with a build_structure_tree_api_level [of 0 N jconts jcs rg repr owner repo]
    show ?thesis by blast
  next
    case False
    then show ?thesis by (simp add: build_structure_tree_api.simps)
  qed
  then obtain ns where ns: "build_structure_tree_api rg repr owner repo jconts N 0 = Inr ns"
    by blast
  moreover have "list_all (tree_within (int r + N)) ns"
    by (rule build_structure_tree_api_within [OF _ _ _ ns, of r])
       (use a in \<open>simp_all add: listing_within_api_def\<close>)
  ultimately show "\<exists>ns. build_structure_tree_api rg repr owner repo jconts N 0 = Inr ns \<and>
            list_all (tree_within (int r + N)) ns"
    by blast
qed

theorem structure_tree_depth_bound_witness:
  "(keeps_paths demo_get_contents \<and>
    list_all (\<lambda>c. components (cf_path c) \<le> 0 + 1) demo_root) \<and>
   (contents_url scalar_repr ''octocat'' ''years'' (JInt 2023) =
      contents_url scalar_repr ''octocat'' ''years'' (JStr ''2023'') \<and>
    keeps_paths_api years_requests_get scalar_repr ''octocat'' ''years'' \<and>
    py_iter years_root_json =
      Inr [demo_json_entry ''2023'' ''dir'' ''2023'' 0,
           demo_json_entry ''README.md'' ''file'' ''README.md'' 12] \<and>
    list_all well_formed_entry
      [demo_json_entry ''2023'' ''dir'' ''2023'' 0,
       demo_json_entry ''README.md'' ''file'' ''README.md'' 12] \<and>
    list_all (entry_within (0 + 1))
      [demo_json_entry ''2023'' ''dir'' ''2023'' 0,
       demo_json_entry ''README.md'' ''file'' ''README.md'' 12]) \<and>
   build_structure_tree demo_get_contents (Listing demo_root) 0 0 = Inr [] \<and>
   build_structure_tree_api years_requests_get scalar_repr ''octocat'' ''years''
     years_root_json 0 0 = Inr [] \<and>
   (\<exists>ns. build_structure_tree demo_get_contents (Listing demo_root) 2 0 = Inr ns \<and>
      list_all (tree_within (int 0 + 2)) ns) \<and>
   build_structure_tree_api years_requests_get scalar_repr ''octocat'' ''years''
     years_root_json 2 0 =
     Inr [Node (JStr ''2023'') (JStr ''dir'') (JStr ''2023'') JNull
            (Some [Node (JStr ''day1.py'') (JStr ''file'') (JStr ''2023/day1.py'') (JInt 30)
                     None]),
          Node (JStr ''README.md'') (JStr ''file'') (JStr ''README.md'') (JInt 12) None] \<and>
   (\<exists>ns. build_structure_tree_api years_requests_get scalar_repr ''octocat'' ''years''
            years_root_json 2 0 = Inr ns \<and>
      list_all (tree_within (int 0 + 2)) ns)"
proof -
  let ?jcs = "[demo_json_entry ''2023'' ''dir'' ''2023'' 0,
               demo_json_entry ''README.md'' ''file'' ''README.md'' 12]"
  note years = years_root_json_def years_requests_get_def demo_json_entry_def demo_not_found_def
  have h1: "keeps_paths demo_get_contents"
    by (simp add: keeps_paths_def demo_defs listing_within_def components_def)
  have h2: "list_all (\<lambda>c. components (cf_path c) \<le> 0 + 1) demo_root"
    by (simp add: demo_defs components_def)
  have same: "contents_url scalar_repr ''octocat'' ''years'' (JInt 2023) =
      contents_url scalar_repr ''octocat'' ''years'' (JStr ''2023'')"
    by (simp add: contents_url_def format_value_def scalar_repr_def decimal.simps digit_def)
  have h3: "keeps_paths_api years_requests_get scalar_repr ''octocat'' ''years''"
    by (auto simp: keeps_paths_api_def years listing_within_api_def entry_within_def
          components_def contents_url_def format_value_def py_iter_def py_getitem_def
          split: if_splits)
  have h4: "py_iter years_root_json = Inr ?jcs \<and> list_all well_formed_entry ?jcs"
    by (simp add: years py_iter_def well_formed_entry_def)
  have h5: "list_all (entry_within (0 + 1)) ?jcs"
    by (simp add: years entry_within_def py_getitem_def components_def)
  have tree: "build_structure_tree_api years_requests_get scalar_repr ''octocat'' ''years''
     years_root_json 2 0 =
     Inr [Node (JStr ''2023'') (JStr ''dir'') (JStr ''2023'') JNull
            (Some [Node (JStr ''day1.py'') (JStr ''file'') (JStr ''2023/day1.py'') (JInt 30)
                     None]),
          Node (JStr ''README.md'') (JStr ''file'') (JStr ''README.md'') (JInt 12) None]"
    by (simp add: build_structure_tree_api.simps structure_item_api.simps years json_ops
          contents_url_def format_value_def)
  note inst = structure_tree_depth_bound
    [of demo_get_contents "Listing demo_root" years_requests_get scalar_repr "''octocat''"
        "''years''" years_root_json 0 demo_root 2 ?jcs]
  from inst h1 h2 h3 h4 h5 same tree show ?thesis by blast
qed

section \<open>Locator Parser\<close>

lemma split_not_Nil: "split sep s \<noteq> []"
  by (induction s) (auto split: list.splits)

lemma split_append_sep: "split sep (xs @ sep # ys) = split sep xs @ split sep ys"
proof (induction xs)
  case Nil
  then show ?case by simp
next
  case (Cons c cs)
  then show ?case
    by (cases "split sep cs") (auto simp: split_not_Nil)
qed

lemma split_no_sep: "sep \<notin> set w \<Longrightarrow> split sep w = [w]"
  by (induction w) auto

lemma split_sep_free: "w \<in> set (split sep s) \<Longrightarrow> sep \<notin> set w"
proof (induction s arbitrary: w)
  case Nil
  then show ?case by simp
next
  case (Cons c cs)
  then show ?case
    by (cases "split sep cs") (auto split: if_splits)
qed

lemma split_replicate: "split sep (replicate k sep) = replicate (Suc k) []"
  by (induction k) auto

lemma split_leading: "split sep (replicate k sep @ s) = replicate k [] @ split sep s"
  by (induction k) auto

lemma split_trailing: "split sep (s @ replicate k sep) = split sep s @ replicate k []"
proof (cases k)
  case 0
  then show ?thesis by simp
next
  case (Suc j)
  then show ?thesis
    by (simp add: split_append_sep split_replicate replicate_append_same)
qed

lemma hd_split: "hd (split sep s) = takeWhile (\<lambda>c. c \<noteq> sep) s"
  by (induction s) (auto split: list.splits simp: split_not_Nil)

text \<open>Stripping a character at both ends leaves the middle of the string.\<close>

lemma dropWhile_eq_replicate:
  "s = replicate (length (takeWhile (\<lambda>c. c = x) s)) x @ dropWhile (\<lambda>c. c = x) s"
  by (induction s) auto

lemma strip_where_decomp:
  "\<exists>k j. s = replicate k x @ strip_where (\<lambda>c. c = x) s @ replicate j x"
proof -
  let ?P = "\<lambda>c. c = x"
  let ?t = "dropWhile ?P s"
  have 1: "s = replicate (length (takeWhile ?P s)) x @ ?t"
    by (rule dropWhile_eq_replicate)
  have "rev ?t = replicate (length (takeWhile ?P (rev ?t))) x @ dropWhile ?P (rev ?t)"
    by (rule dropWhile_eq_replicate)
  then have "rev (rev ?t) = rev (replicate (length (takeWhile ?P (rev ?t))) x @ dropWhile ?P (rev ?t))"
    by simp
  then have 2: "?t = strip_where ?P s @ replicate (length (takeWhile ?P (rev ?t))) x"
    by (simp add: strip_where_def)
  from 1 2 show ?thesis by metis
qed

lemma strip_where_ends:
  "strip_where (\<lambda>c. c = x) s \<noteq> [] \<Longrightarrow>
     hd (strip_where (\<lambda>c. c = x) s) \<noteq> x \<and> last (strip_where (\<lambda>c. c = x) s) \<noteq> x"
proof -
  let ?P = "\<lambda>c. c = x"
  assume ne: "strip_where ?P s \<noteq> []"
  then have ne': "dropWhile ?P (rev (dropWhile ?P s)) \<noteq> []" by (simp add: strip_where_def)
  then have a: "\<not> ?P (hd (dropWhile ?P (rev (dropWhile ?P s))))" by (rule hd_dropWhile)
  then have l: "last (strip_where ?P s) \<noteq> x"
    using ne' by (simp add: strip_where_def last_rev)
  have "dropWhile ?P s \<noteq> []"
  proof
    assume "dropWhile ?P s = []"
    with ne' show False by simp
  qed
  then have b: "hd (dropWhile ?P s) \<noteq> x" using hd_dropWhile [of ?P s] by simp
  obtain j where "dropWhile ?P s = strip_where ?P s @ replicate j x"
    using dropWhile_eq_replicate [of "rev (dropWhile ?P s)" x]
    by (metis rev_append rev_replicate rev_rev_ident strip_where_def)
  with ne b have "hd (strip_where ?P s) \<noteq> x" by simp
  with l show ?thesis by simp
qed

lemma components_strip:
  "components (strip_where (\<lambda>c. c = CHR ''/'') s) = components s"
proof -
  obtain k j where s: "s = replicate k CHR ''/'' @ strip_where (\<lambda>c. c = CHR ''/'') s @ replicate j CHR ''/''"
    using strip_where_decomp by blast
  have "components s = components (replicate k CHR ''/'' @ strip_where (\<lambda>c. c = CHR ''/'') s @ replicate j CHR ''/'')"
    using s by simp
  also have "\<dots> = components (strip_where (\<lambda>c. c = CHR ''/'') s)"
    unfolding components_def
    by (simp add: split_leading split_trailing [of _ _ j, simplified] append_assoc [symmetric] del: append_assoc)
  finally show ?thesis by simp
qed

lemma length_split: "length (split sep s) = Suc (length (filter (\<lambda>c. c = sep) s))"
  by (induction s) (auto split: list.splits simp: split_not_Nil)

lemma hd_split_nonempty: "s \<noteq> [] \<Longrightarrow> hd s \<noteq> sep \<Longrightarrow> hd (split sep s) \<noteq> []"
  by (cases s) (auto split: list.splits)

lemma last_split_nonempty: "s \<noteq> [] \<Longrightarrow> last s \<noteq> sep \<Longrightarrow> last (split sep s) \<noteq> []"
proof (induction s)
  case Nil
  then show ?case by simp
next
  case (Cons c cs)
  show ?case
  proof (cases "cs = []")
    case True
    with Cons.prems show ?thesis by simp
  next
    case False
    with Cons have "last (split sep cs) \<noteq> []" by simp
    then show ?thesis
      by (cases "split sep cs") (auto simp: split_not_Nil split: if_splits)
  qed
qed

lemma two_nonempty_ends:
  assumes "2 \<le> length ws" "hd ws \<noteq> []" "last ws \<noteq> []"
  shows "2 \<le> length (filter (\<lambda>w. w \<noteq> []) ws)"
proof -
  from assms(1) obtain a mid b where ws: "ws = a # mid @ [b]"
    by (metis One_nat_def Suc_1 Suc_le_length_iff append_butlast_last_id length_0_conv
          list.distinct(1) list.sel(3) not_less_eq_eq le_numeral_extra(4) list.size(3) zero_le)
  with assms(2,3) show ?thesis by simp
qed

lemma stripped_parts:
  fixes s :: string
  assumes "s = [] \<or> (hd s \<noteq> CHR ''/'' \<and> last s \<noteq> CHR ''/'')"
  shows "length (split CHR ''/'' s) < 2 \<longleftrightarrow> components s < 2"
proof (cases "s = []")
  case True
  then show ?thesis by (simp add: components_def)
next
  case False
  with assms have e: "hd s \<noteq> CHR ''/''" "last s \<noteq> CHR ''/''" by simp_all
  show ?thesis
  proof (cases "2 \<le> length (split CHR ''/'' s)")
    case True
    have "2 \<le> components s"
      unfolding components_def
      by (rule two_nonempty_ends [OF True])
         (use False e in \<open>simp_all add: hd_split_nonempty last_split_nonempty\<close>)
    with True show ?thesis by simp
  next
    case no: False
    have "length (filter (\<lambda>w. w \<noteq> []) (split CHR ''/'' s)) \<le> length (split CHR ''/'' s)"
      by (rule length_filter_le)
    with no show ?thesis unfolding components_def by linarith
  qed
qed

lemma strip_where_shape:
  "strip_where (\<lambda>c. c = x) s = [] \<or>
   (hd (strip_where (\<lambda>c. c = x) s) \<noteq> x \<and> last (strip_where (\<lambda>c. c = x) s) \<noteq> x)"
  using strip_where_ends by blast

lemma parse_accepts_iff:
  assumes "url_parse u = Inr p" "netloc p = ''github.com''"
  shows "isl (parse_github_url url_parse u) \<longleftrightarrow> components (path p) < 2"
proof -
  let ?s = "strip_where (\<lambda>c. c = CHR ''/'') (path p)"
  have "isl (parse_github_url url_parse u) \<longleftrightarrow> length (split CHR ''/'' ?s) < 2"
    using assms by (simp add: parse_github_url_def Let_def)
  also have "\<dots> \<longleftrightarrow> components ?s < 2"
    by (rule stripped_parts) (rule strip_where_shape)
  also have "\<dots> \<longleftrightarrow> components (path p) < 2"
    by (simp add: components_strip)
  finally show ?thesis .
qed

lemma parse_success_shape:
  assumes "parse_github_url url_parse u = Inr (ow, nm)"
  shows "ow \<noteq> [] \<and> CHR ''/'' \<notin> set ow \<and> CHR ''/'' \<notin> set nm"
proof -
  from assms obtain p where p: "url_parse u = Inr p" "netloc p = ''github.com''"
    by (auto simp: parse_github_url_def Let_def split: sum.splits if_splits)
  let ?s = "strip_where (\<lambda>c. c = CHR ''/'') (path p)"
  let ?parts = "split CHR ''/'' ?s"
  from assms p have len: "2 \<le> length ?parts" and ow: "ow = ?parts ! 0" and nm: "nm = ?parts ! 1"
    by (auto simp: parse_github_url_def Let_def split: if_splits)
  from len have "?s \<noteq> []" by auto
  with strip_where_shape [of "CHR ''/''" "path p"] have "hd ?s \<noteq> CHR ''/''" by simp
  with \<open>?s \<noteq> []\<close> have "hd ?parts \<noteq> []" by (simp add: hd_split_nonempty)
  moreover have "hd ?parts = ?parts ! 0" by (simp add: hd_conv_nth split_not_Nil)
  ultimately have "ow \<noteq> []" using ow by simp
  moreover have "ow \<in> set ?parts" "nm \<in> set ?parts"
    using len ow nm by (auto intro!: nth_mem)
  ultimately show ?thesis by (auto dest: split_sep_free)
qed

lemma strip_tail_append:
  "\<exists>c\<in>set y. \<not> P c \<Longrightarrow> rev (dropWhile P (rev (x @ y))) = x @ rev (dropWhile P (rev y))"
  by (auto simp: dropWhile_append1)

lemma strip_tail_prefix:
  "\<exists>j. s = rev (dropWhile (\<lambda>c. c = x) (rev s)) @ replicate j x"
  using dropWhile_eq_replicate [of "rev s" x]
  by (metis rev_append rev_replicate rev_rev_ident)

lemma strip_tail_nonempty:
  "\<exists>c\<in>set s. \<not> P c \<Longrightarrow> rev (dropWhile P (rev s)) \<noteq> []"
  by (auto simp: dropWhile_eq_Nil_conv)

lemma hd_of_prefix: "s = a @ b \<Longrightarrow> a \<noteq> [] \<Longrightarrow> hd a = hd s"
  by simp

lemma strip_tail_hd:
  assumes "rev (dropWhile (\<lambda>c. c = x) (rev s)) \<noteq> []"
  shows "hd (rev (dropWhile (\<lambda>c. c = x) (rev s))) = hd s"
proof -
  from strip_tail_prefix [of s x]
  obtain j where "s = rev (dropWhile (\<lambda>c. c = x) (rev s)) @ replicate j x" ..
  then show ?thesis using assms by (rule hd_of_prefix)
qed

lemma strip_tail_slashes:
  assumes "\<forall>c\<in>set rest. c = x" "nm \<noteq> []" "x \<notin> set nm"
  shows "rev (dropWhile (\<lambda>c. c = x) (rev (nm @ rest))) = nm"
proof -
  from assms(1) have "replicate (length rest) x = rest"
    by (simp add: replicate_length_same)
  then obtain j where j: "rest = replicate j x" by metis
  have a: "dropWhile (\<lambda>c. c = x) (replicate j x @ t) = dropWhile (\<lambda>c. c = x) t" for t
    by (induction j) simp_all
  have b: "dropWhile (\<lambda>c. c = x) (rev nm) = rev nm"
    using assms(2,3) by (cases "rev nm") auto
  show ?thesis by (simp add: j a b)
qed

lemma parse_exact_pair:
  assumes p: "url_parse u = Inr p" "netloc p = ''github.com''"
    and shape: "path p = replicate k CHR ''/'' @ ow @ ''/'' @ nm @ rest"
    and ow: "ow \<noteq> []" "CHR ''/'' \<notin> set ow" and nm: "CHR ''/'' \<notin> set nm"
    and rest: "rest = [] \<or> hd rest = CHR ''/''"
    and some: "nm \<noteq> [] \<or> (\<exists>c\<in>set rest. c \<noteq> CHR ''/'')"
  shows "parse_github_url url_parse u = Inr (ow, nm)"
proof -
  let ?P = "\<lambda>c. c = CHR ''/''"
  have a: "dropWhile ?P (replicate k CHR ''/'' @ t) = dropWhile ?P t" for t
    by (induction k) simp_all
  have b: "dropWhile ?P (ow @ t) = ow @ t" for t
    using ow by (cases ow) auto
  have lead: "dropWhile ?P (path p) = ow @ ''/'' @ nm @ rest"
    by (simp add: shape a b)
  have nonslash: "\<exists>c\<in>set (nm @ rest). \<not> ?P c"
    using some nm by (cases nm) auto
  have stripped: "strip_where ?P (path p) = ow @ ''/'' @ rev (dropWhile ?P (rev (nm @ rest)))"
    using strip_tail_append [OF nonslash, of "ow @ ''/''"]
    by (simp add: strip_where_def lead)
  have parts: "\<exists>more. split CHR ''/'' (strip_where ?P (path p)) = ow # nm # more"
  proof (cases "\<exists>c\<in>set rest. c \<noteq> CHR ''/''")
    case True
    have 1: "rev (dropWhile ?P (rev (nm @ rest))) = nm @ rev (dropWhile ?P (rev rest))"
      by (rule strip_tail_append) (use True in simp)
    have ne: "rev (dropWhile ?P (rev rest)) \<noteq> []"
      by (rule strip_tail_nonempty) (use True in simp)
    from True rest have r: "hd rest = CHR ''/''" by auto
    from ne have "hd (rev (dropWhile ?P (rev rest))) = hd rest"
      by (rule strip_tail_hd)
    with ne r obtain r' where r': "rev (dropWhile ?P (rev rest)) = CHR ''/'' # r'"
      by (cases "rev (dropWhile ?P (rev rest))") auto
    have "split CHR ''/'' (ow @ CHR ''/'' # nm @ CHR ''/'' # r') =
            ow # nm # split CHR ''/'' r'"
      using ow nm by (simp add: split_append_sep split_no_sep)
    then have "split CHR ''/'' (strip_where ?P (path p)) = ow # nm # split CHR ''/'' r'"
      by (simp only: stripped 1 r' append_Cons append_Nil)
    then show ?thesis ..
  next
    case False
    then have all: "\<forall>c\<in>set rest. c = CHR ''/''" by blast
    with some have nm_ne: "nm \<noteq> []" by blast
    have 2: "rev (dropWhile ?P (rev (nm @ rest))) = nm"
      using all nm_ne nm by (rule strip_tail_slashes)
    have "split CHR ''/'' (ow @ CHR ''/'' # nm) = [ow, nm]"
      using ow nm by (simp add: split_append_sep split_no_sep)
    then have "split CHR ''/'' (strip_where ?P (path p)) = ow # nm # []"
      by (simp only: stripped 2 append_Cons append_Nil)
    then show ?thesis ..
  qed
  then obtain more where "split CHR ''/'' (strip_where ?P (path p)) = ow # nm # more" ..
  with p show ?thesis
    by (simp add: parse_github_url_def Let_def)
qed

text \<open>
  Claim C7, as the code has it. The parser compares the whole network location of
  the URL with \<open>github.com\<close>, not its host: a URL that names the port of the
  expected host is rejected.
\<close>

theorem parse_github_url_counterexample:
  "urlparse ''https://github.com:443/octocat/hello'' =
     Inr \<lparr>netloc = ''github.com:443'', path = ''/octocat/hello''\<rparr> \<and>
   parse_github_url urlparse ''https://github.com:443/octocat/hello'' =
     Inl (ValueError ''Invalid GitHub URL'')"
  by (simp add: parse_github_url_def urlparse_def split_scheme_def is_ascii_alpha_def
        is_scheme_char_def ascii_lower_def uses_params_def strip_where_def Let_def)

text \<open>
  Claim C7, amended. With \<open>urlparse\<close> any function: an exception of \<open>urlparse\<close> is
  the result; a network location other than exactly \<open>github.com\<close> gives the
  \<open>ValueError\<close> \<open>Invalid GitHub URL\<close>; otherwise a path with fewer than two
  non-empty segments gives the \<open>ValueError\<close>
  \<open>Invalid GitHub repository URL format\<close>. A path that is, after any number of
  leading slashes, \<open>owner/name\<close> with both parts non-empty, followed by nothing or by
  a slash and anything, gives exactly \<open>(owner, name)\<close>, whatever trailing segments or
  trailing slash follow. The owner returned is never empty, and neither part
  contains a slash. The parser is a function of its arguments alone. Nothing is
  said here of a path in which two slashes follow the owner.
\<close>

theorem parse_github_url_behaviour:
  "(url_parse u = Inl e \<longrightarrow> parse_github_url url_parse u = Inl e) \<and>
   (url_parse u = Inr p \<and> netloc p \<noteq> ''github.com'' \<longrightarrow>
      parse_github_url url_parse u = Inl (ValueError ''Invalid GitHub URL'')) \<and>
   (url_parse u = Inr p \<and> netloc p = ''github.com'' \<and> components (path p) < 2 \<longrightarrow>
      parse_github_url url_parse u = Inl (ValueError ''Invalid GitHub repository URL format'')) \<and>
   (url_parse u = Inr p \<and> netloc p = ''github.com'' \<and>
    path p = replicate k CHR ''/'' @ ow @ ''/'' @ nm @ rest \<and>
    ow \<noteq> [] \<and> nm \<noteq> [] \<and> CHR ''/'' \<notin> set ow \<and> CHR ''/'' \<notin> set nm \<and>
    (rest = [] \<or> hd rest = CHR ''/'') \<longrightarrow>
      parse_github_url url_parse u = Inr (ow, nm)) \<and>
   (parse_github_url url_parse u = Inr (ow', nm') \<longrightarrow>
      ow' \<noteq> [] \<and> CHR ''/'' \<notin> set ow' \<and> CHR ''/'' \<notin> set nm')"
proof (intro conjI impI)
  assume "url_parse u = Inl e"
  then show "parse_github_url url_parse u = Inl e"
    by (simp add: parse_github_url_def)
next
  assume "url_parse u = Inr p \<and> netloc p \<noteq> ''github.com''"
  then show "parse_github_url url_parse u = Inl (ValueError ''Invalid GitHub URL'')"
    by (simp add: parse_github_url_def)
next
  assume a: "url_parse u = Inr p \<and> netloc p = ''github.com'' \<and> components (path p) < 2"
  then have "isl (parse_github_url url_parse u)"
    by (simp add: parse_accepts_iff)
  with a show "parse_github_url url_parse u =
      Inl (ValueError ''Invalid GitHub repository URL format'')"
    by (simp add: parse_github_url_def Let_def split: if_splits)
next
  assume "url_parse u = Inr p \<and> netloc p = ''github.com'' \<and>
    path p = replicate k CHR ''/'' @ ow @ ''/'' @ nm @ rest \<and>
    ow \<noteq> [] \<and> nm \<noteq> [] \<and> CHR ''/'' \<notin> set ow \<and> CHR ''/'' \<notin> set nm \<and>
    (rest = [] \<or> hd rest = CHR ''/'')"
  then show "parse_github_url url_parse u = Inr (ow, nm)"
    by (intro parse_exact_pair [of url_parse u p k ow nm rest]) simp_all
next
  assume a: "parse_github_url url_parse u = Inr (ow', nm')"
  show "ow' \<noteq> []" "CHR ''/'' \<notin> set ow'" "CHR ''/'' \<notin> set nm'"
    using parse_success_shape [OF a] by simp_all
qed

theorem parse_github_url_behaviour_witness:
  "(urlparse ''https://gitlab.com/octocat/hello'' =
      Inr \<lparr>netloc = ''gitlab.com'', path = ''/octocat/hello''\<rparr> \<and>
    parse_github_url urlparse ''https://gitlab.com/octocat/hello'' =
      Inl (ValueError ''Invalid GitHub URL'')) \<and>
   (urlparse ''https://github.com/octocat/'' =
      Inr \<lparr>netloc = ''github.com'', path = ''/octocat/''\<rparr> \<and>
    components ''/octocat/'' < 2 \<and>
    parse_github_url urlparse ''https://github.com/octocat/'' =
      Inl (ValueError ''Invalid GitHub repository URL format'')) \<and>
   (urlparse ''https://github.com/octocat/Hello-World/tree/main/'' =
      Inr \<lparr>netloc = ''github.com'', path = ''/octocat/Hello-World/tree/main/''\<rparr> \<and>
    parse_github_url urlparse ''https://github.com/octocat/Hello-World/tree/main/'' =
      Inr (''octocat'', ''Hello-World'')) \<and>
   (urlparse ''https://github.com/octocat/Hello-World/'' =
      Inr \<lparr>netloc = ''github.com'', path = ''/octocat/Hello-World/''\<rparr> \<and>
    parse_github_url urlparse ''https://github.com/octocat/Hello-World/'' =
      Inr (''octocat'', ''Hello-World'')) \<and>
   (urlparse ''http://[::1'' = Inl (ValueError ''Invalid IPv6 URL'') \<and>
    parse_github_url urlparse ''http://[::1'' = Inl (ValueError ''Invalid IPv6 URL''))"
proof -
  note ev = urlparse_def split_scheme_def is_ascii_alpha_def is_scheme_char_def
    ascii_lower_def uses_params_def split_params_def Let_def
  let ?p1 = "\<lparr>netloc = ''gitlab.com'', path = ''/octocat/hello''\<rparr>"
  let ?p2 = "\<lparr>netloc = ''github.com'', path = ''/octocat/''\<rparr>"
  let ?p3 = "\<lparr>netloc = ''github.com'', path = ''/octocat/Hello-World/tree/main/''\<rparr>"
  let ?p5 = "\<lparr>netloc = ''github.com'', path = ''/octocat/Hello-World/''\<rparr>"
  have u1: "urlparse ''https://gitlab.com/octocat/hello'' = Inr ?p1" by (simp add: ev)
  have u2: "urlparse ''https://github.com/octocat/'' = Inr ?p2" by (simp add: ev)
  have u3: "urlparse ''https://github.com/octocat/Hello-World/tree/main/'' = Inr ?p3"
    by (simp add: ev)
  have u5: "urlparse ''https://github.com/octocat/Hello-World/'' = Inr ?p5"
    by (simp add: ev)
  have u4: "urlparse ''http://[::1'' = Inl (ValueError ''Invalid IPv6 URL'')" by (simp add: ev)
  have c2: "components ''/octocat/'' < 2" by (simp add: components_def)
  have r1: "parse_github_url urlparse ''https://gitlab.com/octocat/hello'' =
      Inl (ValueError ''Invalid GitHub URL'')"
    using parse_github_url_behaviour
      [where url_parse = urlparse and u = "''https://gitlab.com/octocat/hello''" and p = ?p1] u1
    by simp
  have r2: "parse_github_url urlparse ''https://github.com/octocat/'' =
      Inl (ValueError ''Invalid GitHub repository URL format'')"
    using parse_github_url_behaviour
      [where url_parse = urlparse and u = "''https://github.com/octocat/''" and p = ?p2] u2 c2
    by simp
  have r3: "parse_github_url urlparse ''https://github.com/octocat/Hello-World/tree/main/'' =
      Inr (''octocat'', ''Hello-World'')"
    using parse_github_url_behaviour
      [where url_parse = urlparse and u = "''https://github.com/octocat/Hello-World/tree/main/''"
          and p = ?p3 and k = 1 and ow = "''octocat''" and nm = "''Hello-World''"
          and rest = "''/tree/main/''"] u3
    by simp
  have r5: "parse_github_url urlparse ''https://github.com/octocat/Hello-World/'' =
      Inr (''octocat'', ''Hello-World'')"
    using parse_github_url_behaviour
      [where url_parse = urlparse and u = "''https://github.com/octocat/Hello-World/''"
          and p = ?p5 and k = 1 and ow = "''octocat''" and nm = "''Hello-World''"
          and rest = "''/''"] u5
    by simp
  have r4: "parse_github_url urlparse ''http://[::1'' = Inl (ValueError ''Invalid IPv6 URL'')"
    using parse_github_url_behaviour
      [where url_parse = urlparse and u = "''http://[::1''" and e = "ValueError ''Invalid IPv6 URL''"] u4
    by simp
  from u1 u2 u3 u4 u5 c2 r1 r2 r3 r4 r5 show ?thesis by simp
qed

text \<open>
  Outside the amended claim: a missed case of the parser. Its guard counts the
  segments and does not look at them, so for the path \<open>/a//b\<close> it returns the
  segment after the first one, the empty string, as the name of the repository.
  The resource handler of the same server refuses an empty owner or repository
  (\<open>if not owner or not repo\<close>); the parser has no such test.
\<close>

lemma adjacent_slashes_give_empty_name:
  "parse_github_url urlparse ''https://github.com/a//b'' = Inr (''a'', '''')"
  by (simp add: parse_github_url_def urlparse_def split_scheme_def is_ascii_alpha_def
        is_scheme_char_def ascii_lower_def uses_params_def strip_where_def Let_def)

section \<open>Repository Info Aggregator\<close>

text \<open>
  Claim C8. When the locator parses and the three fetches succeed, the aggregator
  returns a summary whose preview is the document itself when that has at most 500
  characters and otherwise its first 500 characters followed by the marker \<open>...\<close>
  (503 characters in all), and whose structure summary is the first ten entries of
  the top-level tree, in their order.
\<close>

theorem repo_info_truncation:
  "parse_github_url (url_parser E) repo_url = Inr (owner, repo) \<and>
   get_repository_metadata E owner repo = Inr md \<and>
   get_repository_readme E owner repo = Inr readme \<and>
   get_repository_structure E owner repo 3 = Inr structure \<longrightarrow>
     (\<exists>info. get_repo_info E repo_url = Inr info \<and>
        (length readme \<le> 500 \<longrightarrow> readme_preview info = readme) \<and>
        (500 < length readme \<longrightarrow>
           readme_preview info = take 500 readme @ ''...'' \<and>
           length (readme_preview info) = 503) \<and>
        structure_summary info = take 10 structure \<and>
        length (structure_summary info) = min 10 (length structure) \<and>
        (\<forall>i<length (structure_summary info). structure_summary info ! i = structure ! i))"
  by (auto simp: get_repo_info_def bind_exn_def)

theorem repo_info_truncation_witness:
  "parse_github_url (url_parser demo_env_authenticated) ''https://github.com/octocat/hello'' =
     Inr (''octocat'', ''hello'') \<and>
   get_repository_metadata demo_env_authenticated ''octocat'' ''hello'' =
     metadata_authenticated demo_repo \<and>
   \<not> isl (metadata_authenticated demo_repo) \<and>
   get_repository_readme demo_env_authenticated ''octocat'' ''hello'' = Inr demo_readme \<and>
   length demo_readme = 600 \<and>
   get_repository_structure demo_env_authenticated ''octocat'' ''hello'' 3 =
     Inr (map (structure_item demo_repo_contents 3 0) demo_wide_root) \<and>
   length demo_wide_root = 15 \<and>
   (\<exists>info. get_repo_info demo_env_authenticated ''https://github.com/octocat/hello'' = Inr info \<and>
      readme_preview info = replicate 500 CHR ''x'' @ ''...'' \<and>
      length (readme_preview info) = 503 \<and>
      structure_summary info = map (structure_item demo_repo_contents 3 0) (take 10 demo_wide_root) \<and>
      length (structure_summary info) = 10)"
proof -
  let ?E = demo_env_authenticated
  let ?structure = "map (structure_item demo_repo_contents 3 0) demo_wide_root"
  have h1: "parse_github_url (url_parser ?E) ''https://github.com/octocat/hello'' =
     Inr (''octocat'', ''hello'')"
    by (simp add: demo_env_authenticated_def parse_github_url_def urlparse_def split_scheme_def
          is_ascii_alpha_def is_scheme_char_def ascii_lower_def uses_params_def strip_where_def
          Let_def)
  have h2: "get_repository_metadata ?E ''octocat'' ''hello'' = metadata_authenticated demo_repo"
    by (simp add: get_repository_metadata_def demo_env_authenticated_def bind_exn_def)
  obtain md where md: "metadata_authenticated demo_repo = Inr md"
    by (simp add: metadata_authenticated_def demo_repo_def bind_exn_def)
  have h3: "get_repository_readme ?E ''octocat'' ''hello'' = Inr demo_readme"
    by (simp add: get_repository_readme_def demo_env_authenticated_def demo_repo_def bind_exn_def)
  have len: "length demo_readme = 600" by (simp add: demo_readme_def)
  have h4: "get_repository_structure ?E ''octocat'' ''hello'' 3 = Inr ?structure"
    by (simp add: get_repository_structure_def demo_env_authenticated_def demo_repo_def
          demo_repo_contents_def bind_exn_def build_structure_tree_listing)
  have wide: "length demo_wide_root = 15" by (simp add: demo_wide_root_def)
  from repo_info_truncation
    [of ?E "''https://github.com/octocat/hello''" "''octocat''" "''hello''" md demo_readme
        ?structure]
    h1 h2 md h3 h4
  obtain info where info: "get_repo_info ?E ''https://github.com/octocat/hello'' = Inr info"
    "500 < length demo_readme \<longrightarrow>
       readme_preview info = take 500 demo_readme @ ''...'' \<and> length (readme_preview info) = 503"
    "structure_summary info = take 10 ?structure"
    "length (structure_summary info) = min 10 (length ?structure)"
    by auto
  have p: "readme_preview info = replicate 500 CHR ''x'' @ ''...''"
    "length (readme_preview info) = 503"
    using info(2) len by (simp_all add: demo_readme_def)
  have s: "structure_summary info = map (structure_item demo_repo_contents 3 0) (take 10 demo_wide_root)"
    "length (structure_summary info) = 10"
    using info(3,4) wide by (simp_all add: take_map)
  from h1 h2 md h3 len h4 wide info(1) p s show ?thesis by auto
qed

section \<open>Per-format summarizer\<close>

lemma parse_body_requirements:
  "parse_body loads ''requirements.txt'' content =
     Inr (JObj [(''requirements'', JArr (map JStr (requirement_lines content)))])"
  by (simp add: parse_body_def)

lemma parse_body_package_json:
  "parse_body loads ''package.json'' content =
     bind_exn (loads content) (\<lambda>data.
     bind_exn (py_get data ''dependencies'' (JObj [])) (\<lambda>deps.
     bind_exn (py_get data ''devDependencies'' (JObj [])) (\<lambda>dev.
     bind_exn (py_get data ''scripts'' (JObj [])) (\<lambda>scripts.
       Inr (JObj [(''dependencies'', deps), (''devDependencies'', dev),
                  (''scripts'', scripts)])))))"
  by (simp add: parse_body_def)

text \<open>
  Claim C9, as the code has it. The message of the error record starts with a
  capital letter: for a \<open>package.json\<close> that is not JSON the summarizer returns
  \<open>Could not parse package.json\<close>, not \<open>could not parse package.json\<close>.
\<close>

theorem parse_error_record_counterexample:
  "parse_dependency_file demo_json_loads ''package.json'' ''{'' =
     JObj [(''error'', JStr ''Could not parse package.json'')] \<and>
   parse_dependency_file demo_json_loads ''package.json'' ''{'' \<noteq>
     JObj [(''error'', JStr ''could not parse package.json'')]"
  by (simp add: parse_dependency_file_def parse_body_package_json demo_json_loads_def
        demo_package_json_def bind_exn_def)

text \<open>
  Claim C9, amended. For \<open>package.json\<close>, when \<open>json.loads\<close> raises, or returns a
  value that is not a dictionary (reading a key of it raises), the summarizer
  returns the record \<open>{error: "Could not parse package.json"}\<close>; when \<open>json.loads\<close>
  returns a dictionary it returns the three sub-maps, each the empty dictionary when
  its key is absent. For \<open>requirements.txt\<close> nothing can raise and the record is
  always the list of requirements. The summarizer has no exception among its
  results, so no content makes it abort the scan that calls it.
\<close>

theorem parse_failure_gives_error_record:
  "(loads content = Inl e \<longrightarrow>
      parse_dependency_file loads ''package.json'' content =
        JObj [(''error'', JStr ''Could not parse package.json'')]) \<and>
   (loads content = Inr data \<and> \<not> is_dict data \<longrightarrow>
      parse_dependency_file loads ''package.json'' content =
        JObj [(''error'', JStr ''Could not parse package.json'')]) \<and>
   (loads content = Inr (JObj kvs) \<longrightarrow>
      parse_dependency_file loads ''package.json'' content =
        JObj [(''dependencies'',
                 (case map_of kvs ''dependencies'' of None \<Rightarrow> JObj [] | Some v \<Rightarrow> v)),
              (''devDependencies'',
                 (case map_of kvs ''devDependencies'' of None \<Rightarrow> JObj [] | Some v \<Rightarrow> v)),
              (''scripts'',
                 (case map_of kvs ''scripts'' of None \<Rightarrow> JObj [] | Some v \<Rightarrow> v))]) \<and>
   parse_dependency_file loads ''requirements.txt'' content =
     JObj [(''requirements'', JArr (map JStr (requirement_lines content)))]"
proof (intro conjI impI)
  assume "loads content = Inl e"
  then show "parse_dependency_file loads ''package.json'' content =
        JObj [(''error'', JStr ''Could not parse package.json'')]"
    by (simp add: parse_dependency_file_def parse_body_package_json bind_exn_def)
next
  assume "loads content = Inr data \<and> \<not> is_dict data"
  then show "parse_dependency_file loads ''package.json'' content =
        JObj [(''error'', JStr ''Could not parse package.json'')]"
    by (cases data)
       (simp_all add: parse_dependency_file_def parse_body_package_json bind_exn_def
          py_get_def is_dict_def)
next
  assume "loads content = Inr (JObj kvs)"
  then show "parse_dependency_file loads ''package.json'' content =
        JObj [(''dependencies'',
                 (case map_of kvs ''dependencies'' of None \<Rightarrow> JObj [] | Some v \<Rightarrow> v)),
              (''devDependencies'',
                 (case map_of kvs ''devDependencies'' of None \<Rightarrow> JObj [] | Some v \<Rightarrow> v)),
              (''scripts'',
                 (case map_of kvs ''scripts'' of None \<Rightarrow> JObj [] | Some v \<Rightarrow> v))]"
    by (simp add: parse_dependency_file_def parse_body_package_json bind_exn_def py_get_def
          split: option.splits)
next
  show "parse_dependency_file loads ''requirements.txt'' content =
     JObj [(''requirements'', JArr (map JStr (requirement_lines content)))]"
    by (simp add: parse_dependency_file_def parse_body_requirements)
qed

theorem parse_failure_gives_error_record_witness:
  "(demo_json_loads ''{'' = Inl JSONDecodeError \<and>
    parse_dependency_file demo_json_loads ''package.json'' ''{'' =
      JObj [(''error'', JStr ''Could not parse package.json'')]) \<and>
   ((\<lambda>s. Inr (JArr [JInt 1])) ''[1]'' = (Inr (JArr [JInt 1]) :: exn + json) \<and>
    \<not> is_dict (JArr [JInt 1]) \<and>
    parse_dependency_file (\<lambda>s. Inr (JArr [JInt 1])) ''package.json'' ''[1]'' =
      JObj [(''error'', JStr ''Could not parse package.json'')]) \<and>
   (demo_json_loads demo_package_json =
      Inr (JObj [(''dependencies'', JObj [(''a'', JStr ''1.0'')]),
                 (''scripts'', JObj [(''build'', JStr ''x'')])]) \<and>
    parse_dependency_file demo_json_loads ''package.json'' demo_package_json =
      JObj [(''dependencies'', JObj [(''a'', JStr ''1.0'')]),
            (''devDependencies'', JObj []),
            (''scripts'', JObj [(''build'', JStr ''x'')])])"
proof -
  have l1: "demo_json_loads ''{'' = Inl JSONDecodeError"
    by (simp add: demo_json_loads_def demo_package_json_def)
  have l3: "demo_json_loads demo_package_json =
      Inr (JObj [(''dependencies'', JObj [(''a'', JStr ''1.0'')]),
                 (''scripts'', JObj [(''build'', JStr ''x'')])])"
    by (simp add: demo_json_loads_def)
  have d: "\<not> is_dict (JArr [JInt 1])" by (simp add: is_dict_def)
  have r1: "parse_dependency_file demo_json_loads ''package.json'' ''{'' =
      JObj [(''error'', JStr ''Could not parse package.json'')]"
    using parse_failure_gives_error_record
      [where loads = demo_json_loads and content = "''{''" and e = JSONDecodeError] l1
    by simp
  have r2: "parse_dependency_file (\<lambda>s. Inr (JArr [JInt 1])) ''package.json'' ''[1]'' =
      JObj [(''error'', JStr ''Could not parse package.json'')]"
    using parse_failure_gives_error_record
      [where loads = "\<lambda>s. Inr (JArr [JInt 1])" and content = "''[1]''" and data = "JArr [JInt 1]"] d
    by simp
  have r3: "parse_dependency_file demo_json_loads ''package.json'' demo_package_json =
      JObj [(''dependencies'', JObj [(''a'', JStr ''1.0'')]),
            (''devDependencies'', JObj []),
            (''scripts'', JObj [(''build'', JStr ''x'')])]"
    using parse_failure_gives_error_record
      [where loads = demo_json_loads and content = demo_package_json
         and kvs = "[(''dependencies'', JObj [(''a'', JStr ''1.0'')]),
                     (''scripts'', JObj [(''build'', JStr ''x'')])]"] l3
    by simp
  from l1 l3 d r1 r2 r3 show ?thesis by simp
qed

section \<open>Summary of requirements.txt\<close>

lemma strip_where_idem: "strip_where P (strip_where P s) = strip_where P s"
proof (cases "strip_where P s = []")
  case True
  have "strip_where P [] = []" by (simp add: strip_where_def)
  with True show ?thesis by simp
next
  case False
  let ?d = "dropWhile P s"
  let ?t = "dropWhile P (rev ?d)"
  from False have t: "?t \<noteq> []" by (simp add: strip_where_def)
  have d: "?d \<noteq> []"
  proof
    assume "?d = []"
    with t show False by simp
  qed
  from t have last_ok: "\<not> P (hd ?t)" by (rule hd_dropWhile)
  from d have "\<not> P (hd ?d)" by (rule hd_dropWhile)
  moreover have "last ?t = last (rev ?d)"
    using t by (metis append_Nil2 dropWhile_eq_Nil_conv last_appendR takeWhile_dropWhile_id)
  ultimately have first_ok: "\<not> P (last ?t)"
    using d by (simp add: last_rev)
  have "dropWhile P (rev ?t) = rev ?t"
    using t first_ok by (cases "rev ?t") (auto simp: hd_rev)
  moreover have "dropWhile P ?t = ?t"
    using t last_ok by (cases ?t) auto
  ultimately show ?thesis by (simp add: strip_where_def)
qed

lemma requirement_lines_stripped:
  "l \<in> set (requirement_lines content) \<Longrightarrow> l \<noteq> [] \<and> strip l = l"
  by (auto simp: requirement_lines_def strip_def strip_where_idem)

lemma requirement_lines_subseq:
  "subseq (requirement_lines content) (map strip (split CHR 0x0A content))"
  unfolding requirement_lines_def by (rule subseq_map) (rule subseq_filter_left)

lemma requirement_lines_verbatim:
  assumes "\<forall>l\<in>set (split CHR 0x0A content). strip l = l"
  shows "requirement_lines content = spec_requirement_lines content"
proof -
  have "map strip (filter Q ls) = filter Q ls" if "\<forall>l\<in>set ls. strip l = l" for Q ls
    using that by (induction ls) auto
  moreover have "filter (\<lambda>line. strip line \<noteq> [] \<and> \<not> startswith line CHR ''#'') ls =
      filter (\<lambda>line. line \<noteq> [] \<and> \<not> startswith line CHR ''#'') ls"
    if "\<forall>l\<in>set ls. strip l = l" for ls
    using that by (induction ls) auto
  ultimately show ?thesis
    using assms by (simp add: requirement_lines_def spec_requirement_lines_def)
qed

text \<open>
  Claim C4, as the code has it. A line with white space around it is not returned
  verbatim: the summarizer strips it, where the summary in the specification's words
  keeps it as it is.
\<close>

theorem requirements_verbatim_counterexample:
  "parse_dependency_file demo_json_loads ''requirements.txt'' ''  requests  '' =
     JObj [(''requirements'', JArr [JStr ''requests''])] \<and>
   spec_requirement_lines ''  requests  '' = [''  requests  '']"
  by (simp add: parse_dependency_file_def parse_body_requirements requirement_lines_def
        spec_requirement_lines_def strip_def strip_where_def py_isspace_def startswith_def)

text \<open>
  Claim C4, amended. For every content of \<open>requirements.txt\<close> the summarizer splits
  it into lines, drops every line that is empty or white space only and every line
  whose first character is \<open>#\<close>, and returns the remaining lines in their order, each
  without its leading and trailing white space; when no line carries such white
  space this is the summary in the specification's words, the remaining lines
  verbatim. For the content of the specification's example, in a repository that
  holds only that file, the aggregator returns on both paths the mapping of
  \<open>requirements.txt\<close> to the requirements \<open>flask==2.0\<close> and \<open>requests\<close>.
\<close>

theorem requirements_summary:
  "parse_dependency_file loads ''requirements.txt'' content =
     JObj [(''requirements'', JArr (map JStr (requirement_lines content)))] \<and>
   subseq (requirement_lines content) (map strip (split CHR 0x0A content)) \<and>
   (\<forall>l\<in>set (requirement_lines content). l \<noteq> [] \<and> strip l = l) \<and>
   (\<forall>line\<in>set (split CHR 0x0A content).
      strip line \<noteq> [] \<and> \<not> startswith line CHR ''#'' \<longrightarrow>
      strip line \<in> set (requirement_lines content)) \<and>
   ((\<forall>l\<in>set (split CHR 0x0A content). strip l = l) \<longrightarrow>
      requirement_lines content = spec_requirement_lines content) \<and>
   analyze_repo_dependencies reqs_env_authenticated ''https://github.com/octocat/reqs'' =
     Inr [(''requirements.txt'',
           JObj [(''requirements'', JArr [JStr ''flask==2.0'', JStr ''requests''])])] \<and>
   analyze_repo_dependencies reqs_env_fallback ''https://github.com/octocat/reqs'' =
     Inr [(''requirements.txt'',
           JObj [(''requirements'', JArr [JStr ''flask==2.0'', JStr ''requests''])])]"
proof (intro conjI)
  show "parse_dependency_file loads ''requirements.txt'' content =
     JObj [(''requirements'', JArr (map JStr (requirement_lines content)))]"
    by (simp add: parse_dependency_file_def parse_body_requirements)
  show "subseq (requirement_lines content) (map strip (split CHR 0x0A content))"
    by (rule requirement_lines_subseq)
  show "\<forall>l\<in>set (requirement_lines content). l \<noteq> [] \<and> strip l = l"
    using requirement_lines_stripped by blast
  show "\<forall>line\<in>set (split CHR 0x0A content).
      strip line \<noteq> [] \<and> \<not> startswith line CHR ''#'' \<longrightarrow>
      strip line \<in> set (requirement_lines content)"
    by (auto simp: requirement_lines_def)
  show "(\<forall>l\<in>set (split CHR 0x0A content). strip l = l) \<longrightarrow>
      requirement_lines content = spec_requirement_lines content"
    using requirement_lines_verbatim by blast
  have url: "parse_github_url urlparse ''https://github.com/octocat/reqs'' =
      Inr (''octocat'', ''reqs'')"
    by (simp add: parse_github_url_def urlparse_def split_scheme_def is_ascii_alpha_def
          is_scheme_char_def ascii_lower_def uses_params_def strip_where_def Let_def)
  have lines: "requirement_lines demo_requirements = [''flask==2.0'', ''requests'']"
    by (simp add: requirement_lines_def demo_requirements_def strip_def strip_where_def
          py_isspace_def startswith_def)
  have summary: "parse_dependency_file ld ''requirements.txt'' demo_requirements =
      JObj [(''requirements'', JArr [JStr ''flask==2.0'', JStr ''requests''])]" for ld
    by (simp add: parse_dependency_file_def parse_body_requirements lines)
  show "analyze_repo_dependencies reqs_env_authenticated ''https://github.com/octocat/reqs'' =
     Inr [(''requirements.txt'',
           JObj [(''requirements'', JArr [JStr ''flask==2.0'', JStr ''requests''])])]"
    by (simp add: analyze_repo_dependencies_def reqs_env_authenticated_def
          demo_env_authenticated_def url bind_exn_def reqs_repo_def demo_repo_def
          dependency_files_def fetch_authenticated_def demo_file_def is_github_exception_def
          summary)
  show "analyze_repo_dependencies reqs_env_fallback ''https://github.com/octocat/reqs'' =
     Inr [(''requirements.txt'',
           JObj [(''requirements'', JArr [JStr ''flask==2.0'', JStr ''requests''])])]"
    by (simp add: analyze_repo_dependencies_def reqs_env_fallback_def demo_env_fallback_def url
          bind_exn_def dependency_files_def fetch_fallback_def demo_content_response_def
          demo_not_found_def py_getitem_def b64_text_def demo_b64_def summary)
qed

theorem requirements_summary_witness:
  "list_all (\<lambda>l. strip l = l) (split CHR 0x0A demo_requirements) \<and>
   requirement_lines demo_requirements = spec_requirement_lines demo_requirements \<and>
   spec_requirement_lines demo_requirements = [''flask==2.0'', ''requests''] \<and>
   list_all (\<lambda>l. l \<noteq> [] \<and> strip l = l) (requirement_lines demo_requirements) \<and>
   strip ''flask==2.0'' \<in> set (requirement_lines demo_requirements)"
proof -
  have h: "\<forall>l\<in>set (split CHR 0x0A demo_requirements). strip l = l"
    by (simp add: demo_requirements_def strip_def strip_where_def py_isspace_def)
  have s: "spec_requirement_lines demo_requirements = [''flask==2.0'', ''requests'']"
    by (simp add: spec_requirement_lines_def demo_requirements_def startswith_def)
  have m: "''flask==2.0'' \<in> set (split CHR 0x0A demo_requirements)"
    "strip ''flask==2.0'' \<noteq> [] \<and> \<not> startswith ''flask==2.0'' CHR ''#''"
    by (simp_all add: demo_requirements_def strip_def strip_where_def py_isspace_def
          startswith_def)
  note inst = requirements_summary [of demo_json_loads demo_requirements]
  from inst h have e: "requirement_lines demo_requirements = spec_requirement_lines demo_requirements"
    by blast
  from inst have a: "\<forall>l\<in>set (requirement_lines demo_requirements). l \<noteq> [] \<and> strip l = l"
    by blast
  from inst m have b: "strip ''flask==2.0'' \<in> set (requirement_lines demo_requirements)"
    by blast
  from h e s a b show ?thesis by (simp add: list_all_iff)
qed

section \<open>Best-effort scan of the manifests\<close>

text \<open>
  What holds of the two loops. The fallback loop has no exception among its results,
  and a file whose fetch fails or answers with another status than 200 is not added
  to the report. The authenticated loop returns as long as every failing fetch fails
  with a \<open>GithubException\<close>, and stops with the exception at the first fetch that
  fails otherwise.
\<close>

lemma scan_fallback_keys:
  "k \<in> fst ` set (scan_fallback E owner repo files deps) \<Longrightarrow>
     k \<in> fst ` set deps \<or>
     (k \<in> set files \<and> (\<exists>content. fetch_fallback E owner repo k = Inr (Some content)))"
proof (induction files arbitrary: deps)
  case Nil
  then show ?case by simp
next
  case (Cons f fs)
  show ?case
  proof (cases "fetch_fallback E owner repo f")
    case (Inl e)
    with Cons show ?thesis by auto
  next
    case (Inr res)
    show ?thesis
    proof (cases res)
      case None
      with Inr Cons show ?thesis by auto
    next
      case (Some content)
      with Inr Cons.prems
      have "k \<in> fst ` set (scan_fallback E owner repo fs
              (AList.update f (parse_dependency_file (json_loads E) f content) deps))"
        by simp
      from Cons.IH [OF this] Inr Some show ?thesis
        by (auto simp: dom_update)
    qed
  qed
qed

lemma scan_authenticated_returns:
  "(\<And>f e. f \<in> set files \<Longrightarrow> fetch_authenticated repo_obj f = Inl e \<Longrightarrow> is_github_exception e)
     \<Longrightarrow> \<exists>deps'. scan_authenticated loads repo_obj files deps = Inr deps'"
proof (induction files arbitrary: deps)
  case Nil
  then show ?case by simp
next
  case (Cons f fs)
  then show ?case
    by (cases "fetch_authenticated repo_obj f") auto
qed

lemma scan_authenticated_aborts:
  "fetch_authenticated repo_obj f = Inl e \<Longrightarrow> \<not> is_github_exception e \<Longrightarrow>
     scan_authenticated loads repo_obj (f # rest) deps = Inl e"
  by simp

text \<open>
  Claim C3 against the code. In \<open>octocat/hello\<close> the bytes of \<open>requirements.txt\<close>
  are not UTF-8. On the fallback path the file is skipped and the report holds
  \<open>package.json\<close> alone. On the authenticated path the fetch of
  \<open>requirements.txt\<close> succeeds, \<open>decode('utf-8')\<close> raises \<open>UnicodeDecodeError\<close>, which
  the handler \<open>except GithubException\<close> does not catch, and the whole scan ends with
  that exception: the summary of \<open>package.json\<close>, already computed, is lost.
\<close>

theorem authenticated_scan_aborts_on_undecodable_manifest:
  "analyze_repo_dependencies demo_env_authenticated ''https://github.com/octocat/hello'' =
     Inl UnicodeDecodeError \<and>
   analyze_repo_dependencies demo_env_fallback ''https://github.com/octocat/hello'' =
     Inr [(''package.json'',
           JObj [(''dependencies'', JObj [(''a'', JStr ''1.0'')]),
                 (''devDependencies'', JObj []),
                 (''scripts'', JObj [(''build'', JStr ''x'')])])]"
proof (intro conjI)
  have url: "parse_github_url urlparse ''https://github.com/octocat/hello'' =
      Inr (''octocat'', ''hello'')"
    by (simp add: parse_github_url_def urlparse_def split_scheme_def is_ascii_alpha_def
          is_scheme_char_def ascii_lower_def uses_params_def strip_where_def Let_def)
  have summary: "parse_dependency_file demo_json_loads ''package.json'' demo_package_json =
      JObj [(''dependencies'', JObj [(''a'', JStr ''1.0'')]),
            (''devDependencies'', JObj []),
            (''scripts'', JObj [(''build'', JStr ''x'')])]"
    by (simp add: parse_dependency_file_def parse_body_package_json demo_json_loads_def
          bind_exn_def py_get_def)
  show "analyze_repo_dependencies demo_env_authenticated ''https://github.com/octocat/hello'' =
     Inl UnicodeDecodeError"
    by (simp add: analyze_repo_dependencies_def demo_env_authenticated_def url bind_exn_def
          demo_repo_def demo_repo_contents_def dependency_files_def fetch_authenticated_def
          demo_file_def is_github_exception_def summary)
  show "analyze_repo_dependencies demo_env_fallback ''https://github.com/octocat/hello'' =
     Inr [(''package.json'',
           JObj [(''dependencies'', JObj [(''a'', JStr ''1.0'')]),
                 (''devDependencies'', JObj []),
                 (''scripts'', JObj [(''build'', JStr ''x'')])])]"
    by (simp add: analyze_repo_dependencies_def demo_env_fallback_def url bind_exn_def
          dependency_files_def fetch_fallback_def demo_http_def demo_content_response_def
          demo_not_found_def py_getitem_def b64_text_def demo_b64_def summary)
qed

section \<open>Metadata Fetcher on its two paths\<close>

lemma digit_not_Z: "k < 10 \<Longrightarrow> digit k \<noteq> CHR ''Z''"
proof -
  assume "k < 10"
  then have "k \<in> {0, 1, 2, 3, 4, 5, 6, 7, 8, 9}" by auto
  then show ?thesis by (auto simp: digit_def)
qed

lemma decimal_last: "decimal n \<noteq> [] \<and> last (decimal n) \<noteq> CHR ''Z''"
  by (subst (1 2) decimal.simps) (simp add: digit_not_Z)

lemma zero_pad_last: "zero_pad w n \<noteq> [] \<and> last (zero_pad w n) \<noteq> CHR ''Z''"
  by (simp add: zero_pad_def decimal_last)

text \<open>\<open>isoformat\<close> never ends in \<open>Z\<close>; the service's text always does.\<close>

lemma isoformat_last: "last (isoformat d) \<noteq> CHR ''Z''"
  by (cases "dt_utcoffset d") (simp_all add: isoformat_def zero_pad_last)

lemma isoformat_differs: "isoformat d \<noteq> rest_timestamp d"
proof
  assume "isoformat d = rest_timestamp d"
  then have "last (isoformat d) = last (rest_timestamp d)" by simp
  then show False using isoformat_last [of d] by (simp add: rest_timestamp_def)
qed

lemma py_get_of_getitem: "py_getitem v k = Inr x \<Longrightarrow> py_get v k d = Inr x"
  by (cases v) (auto simp: py_getitem_def py_get_def split: option.splits)

lemma metadata_fallback_equivalent:
  assumes "equivalent_data r topics data"
  shows "metadata_fallback data =
     Inr (JObj
       [(''name'', JStr (r_name r)),
        (''full_name'', JStr (r_full_name r)),
        (''description'', opt_str (r_description r)),
        (''language'', opt_str (r_language r)),
        (''stars'', JInt (r_stargazers_count r)),
        (''forks'', JInt (r_forks_count r)),
        (''open_issues'', JInt (r_open_issues_count r)),
        (''created_at'', JStr (rest_timestamp (r_created_at r))),
        (''updated_at'', JStr (rest_timestamp (r_updated_at r))),
        (''size'', JInt (r_size r)),
        (''default_branch'', JStr (r_default_branch r)),
        (''topics'', JArr (map JStr topics)),
        (''license'', (case r_license r of None \<Rightarrow> JNull | Some n \<Rightarrow> JStr n)),
        (''homepage'', opt_str (r_homepage r)),
        (''clone_url'', JStr (r_clone_url r)),
        (''ssh_url'', JStr (r_ssh_url r))])"
proof -
  have lic: "bind_exn (py_get data ''license'' JNull) (\<lambda>lic.
                 if py_truthy lic
                 then bind_exn (py_getitem data ''license'') (\<lambda>l. py_getitem l ''name'')
                 else Inr JNull) =
             Inr (case r_license r of None \<Rightarrow> JNull | Some n \<Rightarrow> JStr n)"
  proof (cases "r_license r")
    case None
    with assms have "py_get data ''license'' JNull = Inr JNull"
      by (simp add: equivalent_data_def)
    with None show ?thesis by (simp add: bind_exn_def py_truthy_def)
  next
    case (Some n)
    with assms obtain lic where l: "py_getitem data ''license'' = Inr lic" "py_truthy lic"
        "py_getitem lic ''name'' = Inr (JStr n)"
      by (auto simp: equivalent_data_def split: sum.splits)
    from l(1) have "py_get data ''license'' JNull = Inr lic" by (rule py_get_of_getitem)
    with Some l show ?thesis by (simp add: bind_exn_def)
  qed
  from assms have fields:
    "py_getitem data ''name'' = Inr (JStr (r_name r))"
    "py_getitem data ''full_name'' = Inr (JStr (r_full_name r))"
    "py_getitem data ''description'' = Inr (opt_str (r_description r))"
    "py_getitem data ''language'' = Inr (opt_str (r_language r))"
    "py_getitem data ''stargazers_count'' = Inr (JInt (r_stargazers_count r))"
    "py_getitem data ''forks_count'' = Inr (JInt (r_forks_count r))"
    "py_getitem data ''open_issues_count'' = Inr (JInt (r_open_issues_count r))"
    "py_getitem data ''created_at'' = Inr (JStr (rest_timestamp (r_created_at r)))"
    "py_getitem data ''updated_at'' = Inr (JStr (rest_timestamp (r_updated_at r)))"
    "py_getitem data ''size'' = Inr (JInt (r_size r))"
    "py_getitem data ''default_branch'' = Inr (JStr (r_default_branch r))"
    "py_get data ''topics'' (JArr []) = Inr (JArr (map JStr topics))"
    "py_getitem data ''homepage'' = Inr (opt_str (r_homepage r))"
    "py_getitem data ''clone_url'' = Inr (JStr (r_clone_url r))"
    "py_getitem data ''ssh_url'' = Inr (JStr (r_ssh_url r))"
    by (simp_all add: equivalent_data_def)
  show ?thesis
    unfolding metadata_fallback_def fields lic
    by (simp add: bind_exn_def)
qed

text \<open>
  Claim C5 against the code. The REST record of the example repository is
  equivalent to the client's object, and the two paths build the same sixteen
  fields, but not the same values: under \<open>created_at\<close> the authenticated path has
  \<open>isoformat()\<close> of the time and the fallback path has the service's text passed
  through, so the two results differ where the claim says they are identical.
\<close>

theorem metadata_timestamps_differ_between_paths:
  "equivalent_data demo_repo [''demo''] demo_metadata_json \<and>
   bind_exn (get_repository_metadata demo_env_authenticated ''octocat'' ''hello'')
     (\<lambda>m. py_getitem m ''created_at'') = Inr (JStr ''2011-01-26T19:01:12+00:00'') \<and>
   bind_exn (get_repository_metadata demo_env_fallback ''octocat'' ''hello'')
     (\<lambda>m. py_getitem m ''created_at'') = Inr (JStr ''2011-01-26T19:01:12Z'')"
proof (intro conjI)
  show "bind_exn (get_repository_metadata demo_env_authenticated ''octocat'' ''hello'')
     (\<lambda>m. py_getitem m ''created_at'') = Inr (JStr ''2011-01-26T19:01:12+00:00'')"
    by (simp add: get_repository_metadata_def demo_env_authenticated_def bind_exn_def
          metadata_authenticated_def demo_repo_def py_getitem_def isoformat_def
          demo_datetime_def zero_pad_def digit_def decimal.simps)
  show eq: "equivalent_data demo_repo [''demo''] demo_metadata_json"
    by (simp add: equivalent_data_def demo_repo_def demo_metadata_json_def py_getitem_def
          py_get_def opt_str_def rest_timestamp_def demo_datetime_def zero_pad_def
          py_truthy_def digit_def decimal.simps)
  have ts: "rest_timestamp (r_created_at demo_repo) = ''2011-01-26T19:01:12Z''"
    by (simp add: demo_repo_def rest_timestamp_def demo_datetime_def zero_pad_def digit_def
          decimal.simps)
  show "bind_exn (get_repository_metadata demo_env_fallback ''octocat'' ''hello'')
     (\<lambda>m. py_getitem m ''created_at'') = Inr (JStr ''2011-01-26T19:01:12Z'')"
    by (simp add: get_repository_metadata_def demo_env_fallback_def demo_http_def bind_exn_def
          raise_for_status_def metadata_fallback_equivalent [OF eq] py_getitem_def ts)
qed

text \<open>
  The extent of the defect, for any repository and equivalent data: both paths
  succeed with the same sixteen keys in the same order and the same value under
  fourteen of them; only under \<open>created_at\<close> and \<open>updated_at\<close> do they differ, and
  there they always do.
\<close>

lemma metadata_paths_differ_only_in_timestamps:
  "github_client E1 = Some get_repo \<and> get_repo (owner @ ''/'' @ repo) = Inr r \<and>
   r_get_topics r = Inr topics \<and>
   github_client E2 = None \<and>
   http_get E2 (''https://api.github.com/repos/'' @ owner @ ''/'' @ repo) = Inr resp \<and>
   status_code resp = 200 \<and> json_body resp = Inr data \<and> equivalent_data r topics data \<longrightarrow>
     (\<exists>m1 m2.
        get_repository_metadata E1 owner repo = Inr (JObj m1) \<and>
        get_repository_metadata E2 owner repo = Inr (JObj m2) \<and>
        map fst m1 = map fst m2 \<and> length m1 = 16 \<and>
        (\<forall>k. k \<noteq> ''created_at'' \<and> k \<noteq> ''updated_at'' \<longrightarrow> map_of m1 k = map_of m2 k) \<and>
        map_of m1 ''created_at'' = Some (JStr (isoformat (r_created_at r))) \<and>
        map_of m2 ''created_at'' = Some (JStr (rest_timestamp (r_created_at r))) \<and>
        map_of m1 ''updated_at'' = Some (JStr (isoformat (r_updated_at r))) \<and>
        map_of m2 ''updated_at'' = Some (JStr (rest_timestamp (r_updated_at r))) \<and>
        map_of m1 ''created_at'' \<noteq> map_of m2 ''created_at'' \<and>
        map_of m1 ''updated_at'' \<noteq> map_of m2 ''updated_at'')"
proof
  assume a: "github_client E1 = Some get_repo \<and> get_repo (owner @ ''/'' @ repo) = Inr r \<and>
   r_get_topics r = Inr topics \<and>
   github_client E2 = None \<and>
   http_get E2 (''https://api.github.com/repos/'' @ owner @ ''/'' @ repo) = Inr resp \<and>
   status_code resp = 200 \<and> json_body resp = Inr data \<and> equivalent_data r topics data"
  let ?m1 = "[(''name'', JStr (r_name r)),
        (''full_name'', JStr (r_full_name r)),
        (''description'', opt_str (r_description r)),
        (''language'', opt_str (r_language r)),
        (''stars'', JInt (r_stargazers_count r)),
        (''forks'', JInt (r_forks_count r)),
        (''open_issues'', JInt (r_open_issues_count r)),
        (''created_at'', JStr (isoformat (r_created_at r))),
        (''updated_at'', JStr (isoformat (r_updated_at r))),
        (''size'', JInt (r_size r)),
        (''default_branch'', JStr (r_default_branch r)),
        (''topics'', JArr (map JStr topics)),
        (''license'', (case r_license r of None \<Rightarrow> JNull | Some n \<Rightarrow> JStr n)),
        (''homepage'', opt_str (r_homepage r)),
        (''clone_url'', JStr (r_clone_url r)),
        (''ssh_url'', JStr (r_ssh_url r))]"
  let ?m2 = "[(''name'', JStr (r_name r)),
        (''full_name'', JStr (r_full_name r)),
        (''description'', opt_str (r_description r)),
        (''language'', opt_str (r_language r)),
        (''stars'', JInt (r_stargazers_count r)),
        (''forks'', JInt (r_forks_count r)),
        (''open_issues'', JInt (r_open_issues_count r)),
        (''created_at'', JStr (rest_timestamp (r_created_at r))),
        (''updated_at'', JStr (rest_timestamp (r_updated_at r))),
        (''size'', JInt (r_size r)),
        (''default_branch'', JStr (r_default_branch r)),
        (''topics'', JArr (map JStr topics)),
        (''license'', (case r_license r of None \<Rightarrow> JNull | Some n \<Rightarrow> JStr n)),
        (''homepage'', opt_str (r_homepage r)),
        (''clone_url'', JStr (r_clone_url r)),
        (''ssh_url'', JStr (r_ssh_url r))]"
  have 1: "get_repository_metadata E1 owner repo = Inr (JObj ?m1)"
    using a by (simp add: get_repository_metadata_def bind_exn_def metadata_authenticated_def)
  have "metadata_fallback data = Inr (JObj ?m2)"
    using a by (intro metadata_fallback_equivalent) simp
  then have 2: "get_repository_metadata E2 owner repo = Inr (JObj ?m2)"
    using a by (simp add: get_repository_metadata_def bind_exn_def raise_for_status_def)
  have keys: "map fst ?m1 = map fst ?m2" "length ?m1 = 16" by simp_all
  have others: "\<forall>k. k \<noteq> ''created_at'' \<and> k \<noteq> ''updated_at'' \<longrightarrow> map_of ?m1 k = map_of ?m2 k"
    by simp
  have c: "map_of ?m1 ''created_at'' = Some (JStr (isoformat (r_created_at r)))"
    "map_of ?m2 ''created_at'' = Some (JStr (rest_timestamp (r_created_at r)))"
    "map_of ?m1 ''updated_at'' = Some (JStr (isoformat (r_updated_at r)))"
    "map_of ?m2 ''updated_at'' = Some (JStr (rest_timestamp (r_updated_at r)))"
    by simp_all
  have d: "map_of ?m1 ''created_at'' \<noteq> map_of ?m2 ''created_at''"
    "map_of ?m1 ''updated_at'' \<noteq> map_of ?m2 ''updated_at''"
    unfolding c by (simp_all add: isoformat_differs)
  show "\<exists>m1 m2.
        get_repository_metadata E1 owner repo = Inr (JObj m1) \<and>
        get_repository_metadata E2 owner repo = Inr (JObj m2) \<and>
        map fst m1 = map fst m2 \<and> length m1 = 16 \<and>
        (\<forall>k. k \<noteq> ''created_at'' \<and> k \<noteq> ''updated_at'' \<longrightarrow> map_of m1 k = map_of m2 k) \<and>
        map_of m1 ''created_at'' = Some (JStr (isoformat (r_created_at r))) \<and>
        map_of m2 ''created_at'' = Some (JStr (rest_timestamp (r_created_at r))) \<and>
        map_of m1 ''updated_at'' = Some (JStr (isoformat (r_updated_at r))) \<and>
        map_of m2 ''updated_at'' = Some (JStr (rest_timestamp (r_updated_at r))) \<and>
        map_of m1 ''created_at'' \<noteq> map_of m2 ''created_at'' \<and>
        map_of m1 ''updated_at'' \<noteq> map_of m2 ''updated_at''"
    using 1 2 keys others c d by blast
qed

end
